theory Spec2Isabelle
  imports Complex_Main
begin

section \<open>Motor protocol driver (controllers/motor.py)\<close>

subsection \<open>Python values, the status dictionary and the change signal\<close>

text \<open>
  The values stored in \<^verbatim>\<open>Motor._status\<close>: \<^verbatim>\<open>None\<close>, booleans, the integer position
  and the alarm message string.  A dictionary is an association list in insertion order,
  as a Python \<^verbatim>\<open>dict\<close> is.
\<close>

datatype pyval = PyNone | PyBool bool | PyInt int | PyStr string

type_synonym dict = "(string \<times> pyval) list"

text \<open>Python's \<^verbatim>\<open>==\<close> on these values: a \<^verbatim>\<open>bool\<close> is an \<^verbatim>\<open>int\<close> (\<^verbatim>\<open>True == 1\<close>).\<close>

fun py_eq :: "pyval \<Rightarrow> pyval \<Rightarrow> bool" where
  "py_eq (PyBool b) (PyInt i) = (i = (if b then 1 else 0))"
| "py_eq (PyInt i) (PyBool b) = (i = (if b then 1 else 0))"
| "py_eq a b = (a = b)"

text \<open>\<^verbatim>\<open>d[k] = v\<close>: an existing key keeps its place, a new key goes last.\<close>

fun dict_set :: "string \<Rightarrow> pyval \<Rightarrow> dict \<Rightarrow> dict" where
  "dict_set k v [] = [(k, v)]"
| "dict_set k v (p # ps) = (if fst p = k then (k, v) # ps else p # dict_set k v ps)"

text \<open>\<^verbatim>\<open>{**old, **values}\<close>\<close>

fun dict_merge :: "dict \<Rightarrow> dict \<Rightarrow> dict" where
  "dict_merge old [] = old"
| "dict_merge old ((k, v) # kvs) = dict_merge (dict_set k v old) kvs"

text \<open>
  What \<^verbatim>\<open>SimpleSignal.emit\<close> is handed.  The source passes a Python object; the two
  shapes that matter here are a plain value and a dictionary of fields.
\<close>

datatype payload = Value pyval | Fields dict

datatype py_exc =
    BrokenPipeError | ConnectionAbortedError | ConnectionRefusedError | ConnectionResetError
  | TimeoutError | InterruptedError | SocketTimeout | OSError
  | AttributeError | KeyError | ValueError | TypeError | IndexError | AxisError

text \<open>\<^verbatim>\<open>except ConnectionError\<close> catches the four subclasses of \<^verbatim>\<open>ConnectionError\<close>.\<close>

fun is_ConnectionError :: "py_exc \<Rightarrow> bool" where
  "is_ConnectionError BrokenPipeError = True"
| "is_ConnectionError ConnectionAbortedError = True"
| "is_ConnectionError ConnectionRefusedError = True"
| "is_ConnectionError ConnectionResetError = True"
| "is_ConnectionError _ = False"

text \<open>
  The tuple caught inside \<^verbatim>\<open>Motor.connect\<close>:
  \<^verbatim>\<open>(TimeoutError, InterruptedError, ConnectionRefusedError, socket.timeout)\<close>.
\<close>

fun caught_by_connect :: "py_exc \<Rightarrow> bool" where
  "caught_by_connect TimeoutError = True"
| "caught_by_connect InterruptedError = True"
| "caught_by_connect ConnectionRefusedError = True"
| "caught_by_connect SocketTimeout = True"
| "caught_by_connect _ = False"

text \<open>
  The network as the driver sees it: the outcome of the k-th call of \<^verbatim>\<open>socket.send\<close>,
  of the k-th connection attempt (\<^verbatim>\<open>s.connect\<close>), and of the k-th call of
  \<^verbatim>\<open>Motor.recv\<close> (the framed payload, header and terminator stripped, or the exception
  the socket raised).  \<open>None\<close> is success.
\<close>

record net =
  send_result :: "nat \<Rightarrow> py_exc option"
  connect_result :: "nat \<Rightarrow> py_exc option"
  recv_result :: "nat \<Rightarrow> py_exc + string"

text \<open>
  The state of a \<^verbatim>\<open>Motor\<close>: its status dictionary, the handlers connected to
  \<^verbatim>\<open>status_changed\<close>, and what it has done so far: the payloads given to \<^verbatim>\<open>emit\<close>, the
  handler calls made, the byte strings handed to \<^verbatim>\<open>socket.send\<close>, and how many sends,
  connection attempts and receives it has made.
\<close>

record motor =
  status :: dict
  handlers :: "nat list"
  emitted :: "payload list"
  handler_calls :: "(nat \<times> payload) list"
  sent :: "string list"
  n_send :: nat
  n_connect :: nat
  n_recv :: nat

definition default_status :: dict where
  "default_status =
    [(''connected'', PyBool False), (''position'', PyNone), (''alarm'', PyNone),
     (''enabled'', PyNone), (''fault'', PyNone), (''moving'', PyNone),
     (''homing'', PyNone), (''jogging'', PyNone), (''motion_in_progress'', PyNone),
     (''in_position'', PyNone), (''stopping'', PyNone), (''waiting'', PyNone)]"

text \<open>\<^verbatim>\<open>SimpleSignal.emit\<close>: every connected handler is called with the payload, in order.\<close>

definition emit :: "payload \<Rightarrow> motor \<Rightarrow> motor" where
  "emit p m =
     m\<lparr>emitted := emitted m @ [p],
       handler_calls := handler_calls m @ map (\<lambda>h. (h, p)) (handlers m)\<rparr>"

text \<open>
  The dictionary \<^verbatim>\<open>changed\<close> of \<^verbatim>\<open>Motor.update_status\<close>: the items of the new status
  whose key is new or whose old value is \<^verbatim>\<open>!=\<close> the new one.
\<close>

definition differs :: "dict \<Rightarrow> string \<times> pyval \<Rightarrow> bool" where
  "differs old_status kv =
     (case map_of old_status (fst kv) of None \<Rightarrow> True | Some v \<Rightarrow> \<not> py_eq v (snd kv))"

definition changed_fields :: "dict \<Rightarrow> dict \<Rightarrow> dict" where
  "changed_fields old_status vals = filter (differs old_status) (dict_merge old_status vals)"

definition update_status :: "dict \<Rightarrow> motor \<Rightarrow> motor" where
  "update_status vals m =
     (let old_status = status m;
          new_status = dict_merge old_status vals;
          changed = changed_fields old_status vals;
          m1 = (if changed \<noteq> [] then emit (Value (PyBool True)) m else m)
      in m1\<lparr>status := new_status\<rparr>)"


subsection \<open>Connecting and sending (Motor.connect, Motor.\_send\_raw\_command)\<close>

text \<open>\<^verbatim>\<open>_settings["max_connection_attempts"]\<close>\<close>

definition max_connection_attempts :: nat where
  "max_connection_attempts = 3"

text \<open>
  The loop \<^verbatim>\<open>for _count in range(_allowed_attempts)\<close> of \<^verbatim>\<open>Motor.connect\<close>, by the
  number of iterations still to run (\<^verbatim>\<open>_count\<close> is \<open>allowed - remaining\<close>).  One evaluation
  of the \<^verbatim>\<open>try\<close> block is one connection attempt.  A successful attempt stores the socket,
  updates the status and returns; a caught exception is logged and the loop goes on unless
  this was the last allowed attempt, where it is raised again; any other exception leaves
  the loop at once.
\<close>

fun connect_loop :: "net \<Rightarrow> nat \<Rightarrow> nat \<Rightarrow> motor \<Rightarrow> (py_exc + unit) \<times> motor" where
  "connect_loop nw allowed 0 m = (Inr (), m)"
| "connect_loop nw allowed (Suc remaining) m =
     (let count = allowed - Suc remaining;
          m1 = m\<lparr>n_connect := Suc (n_connect m)\<rparr>
      in case connect_result nw (n_connect m) of
           None \<Rightarrow> (Inr (), update_status [(''connected'', PyBool True)] m1)
         | Some error \<Rightarrow>
             if caught_by_connect error then
               (if count + 1 < allowed then connect_loop nw allowed remaining m1
                else (Inl error, m1))
             else (Inl error, m1))"

definition connect :: "net \<Rightarrow> motor \<Rightarrow> (py_exc + unit) \<times> motor" where
  "connect nw m = connect_loop nw max_connection_attempts max_connection_attempts m"

text \<open>One call of \<^verbatim>\<open>self.socket.send(cmd_str)\<close>.\<close>

definition socket_send :: "net \<Rightarrow> string \<Rightarrow> motor \<Rightarrow> (py_exc + unit) \<times> motor" where
  "socket_send nw cmd_str m =
     ((case send_result nw (n_send m) of None \<Rightarrow> Inr () | Some e \<Rightarrow> Inl e),
      m\<lparr>sent := sent m @ [cmd_str], n_send := Suc (n_send m)\<rparr>)"

text \<open>Header \<^verbatim>\<open>0x00 0x07\<close>, the command, carriage return.\<close>

definition frame :: "string \<Rightarrow> string" where
  "frame cmd = [CHR 0x00, CHR 0x07] @ cmd @ [CHR 0x0D]"

text \<open>
  The \<^verbatim>\<open>try\<close>/\<^verbatim>\<open>except ConnectionError\<close> statement of \<^verbatim>\<open>_send_raw_command\<close>: the
  second \<^verbatim>\<open>send\<close> stands in the handler, outside any \<^verbatim>\<open>try\<close>.
\<close>

definition send_with_reconnect :: "net \<Rightarrow> string \<Rightarrow> motor \<Rightarrow> (py_exc + unit) \<times> motor" where
  "send_with_reconnect nw cmd_str m =
     (case socket_send nw cmd_str m of
        (Inr u, m1) \<Rightarrow> (Inr (), m1)
      | (Inl e, m1) \<Rightarrow>
          if is_ConnectionError e then
            (let m2 = update_status [(''connected'', PyBool False)] m1
             in case connect nw m2 of
                  (Inl e2, m3) \<Rightarrow> (Inl e2, m3)
                | (Inr u, m3) \<Rightarrow> socket_send nw cmd_str m3)
          else (Inl e, m1))"

text \<open>
  \<^verbatim>\<open>Motor.recv\<close> followed by \<^verbatim>\<open>decode("ASCII")\<close>.  The framing loop is taken by its
  outcome: the payload between header and terminator, or the exception of the socket.
\<close>

definition recv :: "net \<Rightarrow> motor \<Rightarrow> (py_exc + string) \<times> motor" where
  "recv nw m = (recv_result nw (n_recv m), m\<lparr>n_recv := Suc (n_recv m)\<rparr>)"

definition send_raw_command :: "net \<Rightarrow> string \<Rightarrow> motor \<Rightarrow> (py_exc + string) \<times> motor" where
  "send_raw_command nw cmd m =
     (case send_with_reconnect nw (frame cmd) m of
        (Inl e, m1) \<Rightarrow> (Inl e, m1)
      | (Inr u, m1) \<Rightarrow> recv nw m1)"


subsection \<open>The command table and Motor.send\_command\<close>

text \<open>
  A send template is a literal or a literal followed by the placeholder \<^verbatim>\<open>{}\<close>.  The
  reply patterns of the table, each with a named group \<^verbatim>\<open>return\<close> after a fixed prefix:
  exactly four digits, one or more digits, an optional minus sign and one or more digits,
  one or more status letters.
\<close>

datatype template = Literal string | WithValue string

datatype recv_pattern =
  Digits4 string | Digits string | SignedDigits string | StatusLetters string

record command =
  send :: "template option"
  send_processor_int :: bool
  recv_pat :: "recv_pattern option"
  recv_processor_int :: bool

definition cmd :: "template option \<Rightarrow> bool \<Rightarrow> recv_pattern option \<Rightarrow> bool \<Rightarrow> command" where
  "cmd s sp r rp = \<lparr>send = s, send_processor_int = sp, recv_pat = r, recv_processor_int = rp\<rparr>"

text \<open>
  \<^verbatim>\<open>Motor._commands\<close>.  The entry \<^verbatim>\<open>alarm_reset\<close> spells its key \<^verbatim>\<open>senf\<close>, so it has no
  \<^verbatim>\<open>send\<close>; \<^verbatim>\<open>set_distance\<close> is the entry of \<^verbatim>\<open>set_position\<close>.
\<close>

definition commands :: "string \<Rightarrow> command option" where
  "commands name =
    (if name = ''alarm'' then Some (cmd (Some (Literal ''AL'')) False (Some (Digits4 ''AL='')) False)
     else if name = ''alarm_reset'' then Some (cmd None False None False)
     else if name = ''disable'' then Some (cmd (Some (Literal ''MD'')) False None False)
     else if name = ''enable'' then Some (cmd (Some (Literal ''ME'')) False None False)
     else if name = ''encoder_resolution''
       then Some (cmd (Some (Literal ''ER'')) False (Some (Digits ''ER='')) True)
     else if name = ''gearing''
       then Some (cmd (Some (Literal ''EG'')) False (Some (Digits ''EG='')) True)
     else if name = ''get_position''
       then Some (cmd (Some (Literal ''IP'')) False (Some (SignedDigits ''IP='')) True)
     else if name = ''request_status''
       then Some (cmd (Some (Literal ''RS'')) False (Some (StatusLetters ''RS='')) False)
     else if name = ''set_position'' \<or> name = ''set_distance''
       then Some (cmd (Some (WithValue ''DI'')) True None False)
     else if name = ''stop'' then Some (cmd (Some (Literal ''SK'')) False None False)
     else None)"

definition is_digit :: "char \<Rightarrow> bool" where
  "is_digit c = (c \<in> set ''0123456789'')"

definition digit_val :: "char \<Rightarrow> nat" where
  "digit_val c =
     (case map_of (zip ''0123456789'' [0, 1, 2, 3, 4, 5, 6, 7, 8, 9]) c of
        None \<Rightarrow> 0
      | Some d \<Rightarrow> d)"

definition digit_char :: "nat \<Rightarrow> char" where
  "digit_char d = ''0123456789'' ! (d mod 10)"

definition parse_nat :: "string \<Rightarrow> nat" where
  "parse_nat ds = foldl (\<lambda>a c. 10 * a + digit_val c) 0 ds"

text \<open>\<^verbatim>\<open>int(s)\<close> on a string the pattern \<^verbatim>\<open>-?[0-9]+\<close> or \<^verbatim>\<open>[0-9]+\<close> has matched.\<close>

definition py_int_of_str :: "string \<Rightarrow> int" where
  "py_int_of_str s =
     (case s of
        c # ds \<Rightarrow> if c = CHR ''-'' then - int (parse_nat ds) else int (parse_nat s)
      | [] \<Rightarrow> 0)"

text \<open>The decimal digits of a natural number, and \<^verbatim>\<open>str(n)\<close> of an integer.\<close>

function digits_of :: "nat \<Rightarrow> string" where
  "digits_of n = (if n < 10 then [digit_char n] else digits_of (n div 10) @ [digit_char n])"
  by pat_completeness auto
termination
  by (relation "measure id") auto

declare digits_of.simps [simp del]

definition py_str_of_int :: "int \<Rightarrow> string" where
  "py_str_of_int i = (if i < 0 then CHR ''-'' # digits_of (nat (- i)) else digits_of (nat i))"

text \<open>\<^verbatim>\<open>recv_pattern.fullmatch(recv_str)\<close>: the group \<^verbatim>\<open>return\<close>, or no match.\<close>

definition strip_prefix :: "string \<Rightarrow> string \<Rightarrow> string option" where
  "strip_prefix p s = (if take (length p) s = p then Some (drop (length p) s) else None)"

fun fullmatch :: "recv_pattern \<Rightarrow> string \<Rightarrow> string option" where
  "fullmatch (Digits4 p) s =
     (case strip_prefix p s of
        None \<Rightarrow> None
      | Some r \<Rightarrow> if length r = 4 \<and> list_all is_digit r then Some r else None)"
| "fullmatch (Digits p) s =
     (case strip_prefix p s of
        None \<Rightarrow> None
      | Some r \<Rightarrow> if r \<noteq> [] \<and> list_all is_digit r then Some r else None)"
| "fullmatch (SignedDigits p) s =
     (case strip_prefix p s of
        None \<Rightarrow> None
      | Some r \<Rightarrow>
          (let ds = (if r \<noteq> [] \<and> hd r = CHR ''-'' then tl r else r)
           in if ds \<noteq> [] \<and> list_all is_digit ds then Some r else None))"
| "fullmatch (StatusLetters p) s =
     (case strip_prefix p s of
        None \<Rightarrow> None
      | Some r \<Rightarrow>
          if r \<noteq> [] \<and> list_all (\<lambda>c. c \<in> set ''ADEFHJMPRSTW'') r then Some r else None)"

text \<open>
  \<^verbatim>\<open>Motor.send_command(command, *args)\<close>, with the first positional argument an integer
  when there is one.  A missing command or a missing \<^verbatim>\<open>send\<close> is a \<^verbatim>\<open>KeyError\<close>;
  \<^verbatim>\<open>int("")\<close> is a \<^verbatim>\<open>ValueError\<close>; a reply the pattern does not match gives \<^verbatim>\<open>None\<close>,
  whose \<^verbatim>\<open>group\<close> is an \<^verbatim>\<open>AttributeError\<close>.
\<close>

definition send_command ::
  "net \<Rightarrow> string \<Rightarrow> int option \<Rightarrow> motor \<Rightarrow> (py_exc + pyval) \<times> motor" where
  "send_command nw name arg m =
     (case commands name of
        None \<Rightarrow> (Inl KeyError, m)
      | Some c \<Rightarrow>
         (case send c of
            None \<Rightarrow> (Inl KeyError, m)
          | Some msg \<Rightarrow>
             if send_processor_int c \<and> arg = None then (Inl ValueError, m)
             else
               (let text = (case msg of
                              Literal l \<Rightarrow> l
                            | WithValue l \<Rightarrow>
                                l @ (case arg of None \<Rightarrow> [] | Some v \<Rightarrow> py_str_of_int v))
                in case send_raw_command nw text m of
                     (Inl e, m1) \<Rightarrow> (Inl e, m1)
                   | (Inr recv_str, m1) \<Rightarrow>
                       (case (case recv_pat c of
                                None \<Rightarrow> Some recv_str
                              | Some pat \<Rightarrow> fullmatch pat recv_str) of
                          None \<Rightarrow> (Inl AttributeError, m1)
                        | Some r \<Rightarrow>
                            if recv_processor_int c then (Inr (PyInt (py_int_of_str r)), m1)
                            else (Inr (PyStr r), m1)))))"

subsection \<open>Status and alarm decoding\<close>

text \<open>\<^verbatim>\<open>Motor._alarm_codes\<close>\<close>

definition alarm_codes :: "nat \<Rightarrow> string option" where
  "alarm_codes code =
    (if code = 1 then Some ''position limit [Drive Fault]''
     else if code = 2 then Some ''CCW limit''
     else if code = 4 then Some ''CW limit''
     else if code = 8 then Some ''over temp  [Drive Fault]''
     else if code = 10 then Some ''internal voltage [Drive Fault]''
     else if code = 20 then Some ''over voltage [Drive Fault]''
     else if code = 40 then Some ''under voltage''
     else if code = 80 then Some ''over current [Drive Fault]''
     else if code = 100 then Some ''open motor winding [Drive Fault]''
     else if code = 400 then Some ''common error''
     else if code = 800 then Some ''bad flash''
     else if code = 1000 then Some ''no move''
     else if code = 4000 then Some ''blank Q segment''
     else None)"

text \<open>\<^verbatim>\<open>f"{code:04d}"\<close>\<close>

definition format_04d :: "nat \<Rightarrow> string" where
  "format_04d n = (let ds = digits_of n in replicate (4 - length ds) CHR ''0'' @ ds)"

text \<open>\<^verbatim>\<open>sep.join(parts)\<close>\<close>

fun join :: "string \<Rightarrow> string list \<Rightarrow> string" where
  "join sep [] = []"
| "join sep [x] = x"
| "join sep (x # y # ys) = x @ sep @ join sep (y # ys)"

text \<open>
  The codes of the alarm reply: digit \<open>i\<close> times \<^verbatim>\<open>10**(3-i)\<close>.  The reply pattern has
  matched exactly four digits, so the exponent is never negative.
\<close>

definition alarm_code_list :: "string \<Rightarrow> nat list" where
  "alarm_code_list rtn = map (\<lambda>(i, digit). digit_val digit * 10 ^ (3 - i)) (enumerate 0 rtn)"

definition alarm_text :: "string \<Rightarrow> string" where
  "alarm_text rtn =
     join '' :: ''
       (concat (map (\<lambda>code. case alarm_codes code of
                               None \<Rightarrow> []
                             | Some msg \<Rightarrow> [format_04d code @ '' - '' @ msg])
                    (alarm_code_list rtn)))"

text \<open>Iterating over a reply: only a string can be iterated.\<close>

fun py_iter :: "pyval \<Rightarrow> py_exc + string" where
  "py_iter (PyStr s) = Inr s"
| "py_iter _ = Inl TypeError"

definition retrieve_motor_alarm :: "net \<Rightarrow> bool \<Rightarrow> motor \<Rightarrow> (py_exc + string) \<times> motor" where
  "retrieve_motor_alarm nw defer_status_update m =
     (case send_command nw ''alarm'' None m of
        (Inl e, m1) \<Rightarrow> (Inl e, m1)
      | (Inr rtn, m1) \<Rightarrow>
          (case py_iter rtn of
             Inl e \<Rightarrow> (Inl e, m1)
           | Inr digits \<Rightarrow>
               (let alarm_message = alarm_text digits
                in if \<not> defer_status_update \<and> alarm_message \<noteq> []
                   then (Inr alarm_message,
                         update_status [(''alarm_message'', PyStr alarm_message)] m1)
                   else (Inr alarm_message, m1))))"

text \<open>The null status of \<^verbatim>\<open>retrieve_motor_status\<close> and one pass of its letter loop.\<close>

definition null_status :: dict where
  "null_status =
    [(''alarm'', PyBool False), (''enabled'', PyBool False), (''fault'', PyBool False),
     (''moving'', PyBool False), (''homing'', PyBool False), (''jogging'', PyBool False),
     (''motion_in_progress'', PyBool False), (''in_position'', PyBool False),
     (''stopping'', PyBool False), (''waiting'', PyBool False)]"

definition decode_letter :: "char \<Rightarrow> dict \<Rightarrow> dict" where
  "decode_letter letter st =
    (if letter = CHR ''A'' then dict_set ''alarm'' (PyBool True) st
     else if letter = CHR ''D'' \<or> letter = CHR ''R''
       then dict_set ''enabled'' (PyBool (letter = CHR ''R'')) st
     else if letter = CHR ''E'' then dict_set ''fault'' (PyBool True) st
     else if letter = CHR ''F'' then dict_set ''moving'' (PyBool True) st
     else if letter = CHR ''H'' then dict_set ''homing'' (PyBool True) st
     else if letter = CHR ''J'' then dict_set ''jogging'' (PyBool True) st
     else if letter = CHR ''M'' then dict_set ''motion_in_progress'' (PyBool True) st
     else if letter = CHR ''P'' then dict_set ''in_position'' (PyBool True) st
     else if letter = CHR ''S'' then dict_set ''stopping'' (PyBool True) st
     else if letter = CHR ''T'' \<or> letter = CHR ''W''
       then dict_set ''waiting'' (PyBool True) st
     else st)"

definition decode_status :: "string \<Rightarrow> dict" where
  "decode_status rtn = fold decode_letter rtn null_status"

definition retrieve_motor_status :: "net \<Rightarrow> motor \<Rightarrow> (py_exc + unit) \<times> motor" where
  "retrieve_motor_status nw m =
     (case send_command nw ''request_status'' None m of
        (Inl e, m1) \<Rightarrow> (Inl e, m1)
      | (Inr rtn, m1) \<Rightarrow>
          (case py_iter rtn of
             Inl e \<Rightarrow> (Inl e, m1)
           | Inr letters \<Rightarrow>
               (case send_command nw ''get_position'' None m1 of
                  (Inl e, m2) \<Rightarrow> (Inl e, m2)
                | (Inr pos, m2) \<Rightarrow>
                    (let st = dict_set ''position'' pos (decode_status letters)
                     in if map_of st ''alarm'' = Some (PyBool True) then
                          (case retrieve_motor_alarm nw True m2 of
                             (Inl e, m3) \<Rightarrow> (Inl e, m3)
                           | (Inr alarm_message, m3) \<Rightarrow>
                               (Inr (),
                                update_status
                                  (dict_set ''alarm_message'' (PyStr alarm_message) st) m3))
                        else (Inr (), update_status st m2)))))"


section \<open>Regular grid layers (motion\_builder/layers/regular\_grid.py)\<close>

subsection \<open>Arrays\<close>

text \<open>
  A NumPy array, or a nested Python list of numbers, by its nesting: a \<open>Leaf\<close> is a
  scalar (rank 0) and a \<open>Node\<close> holds the sub-arrays along the first axis.  An empty
  \<open>Node\<close> is the empty array of rank 1.
\<close>

datatype 'a nd = Leaf 'a | Node "'a nd list"

fun ndim :: "'a nd \<Rightarrow> nat" where
  "ndim (Leaf x) = 0"
| "ndim (Node []) = 1"
| "ndim (Node (a # as)) = Suc (ndim a)"

fun shape :: "'a nd \<Rightarrow> nat list" where
  "shape (Leaf x) = []"
| "shape (Node []) = [0]"
| "shape (Node (a # as)) = Suc (length as) # shape a"

text \<open>A nested list converts to an array when all sub-lists of a level have one shape.\<close>

fun regular :: "'a nd \<Rightarrow> bool" where
  "regular (Leaf x) = True"
| "regular (Node as) = list_all (\<lambda>a. regular a \<and> shape a = shape (hd as)) as"

text \<open>\<^verbatim>\<open>ndarray.squeeze()\<close>: every axis of length one is dropped.\<close>

fun squeeze :: "'a nd \<Rightarrow> 'a nd" where
  "squeeze (Leaf x) = Leaf x"
| "squeeze (Node [a]) = squeeze a"
| "squeeze (Node as) = Node (map squeeze as)"

fun leaves :: "'a nd \<Rightarrow> 'a list" where
  "leaves (Leaf x) = [x]"
| "leaves (Node as) = concat (map leaves as)"

text \<open>The rows of an array of rank 2, and the entries of an array of rank 1.\<close>

definition rows :: "'a nd \<Rightarrow> 'a list list" where
  "rows a = (case a of Leaf x \<Rightarrow> [] | Node as \<Rightarrow> map leaves as)"

text \<open>
  The kinds of dtype that \<^verbatim>\<open>np.issubdtype\<close> is asked about: a floating dtype, an
  integer dtype, anything else (bool, object, string).
\<close>

datatype dtype = Floating | Integer | OtherDtype

definition issubdtype_floating :: "dtype \<Rightarrow> bool" where
  "issubdtype_floating d = (d = Floating)"

definition issubdtype_integer :: "dtype \<Rightarrow> bool" where
  "issubdtype_integer d = (d = Integer)"

text \<open>
  An argument of a layer: a (nested) Python list of numbers, something that does not
  convert to a numeric array, or a NumPy array with its dtype.
\<close>

datatype 'a array_like = PySeq "'a nd" | NonNumeric | NdArray dtype "'a nd"

text \<open>An exception with (the start of) its message, to tell the raise sites apart.\<close>

datatype raised = Raised py_exc string

text \<open>
  \<^verbatim>\<open>if not isinstance(x, np.ndarray): x = np.array(x, dtype=...)\<close>: an array is kept
  with the dtype it has, a list is converted to the dtype asked for.
\<close>

definition as_array :: "dtype \<Rightarrow> 'a array_like \<Rightarrow> raised + dtype \<times> 'a nd" where
  "as_array wanted x =
     (case x of
        NdArray d a \<Rightarrow> Inr (d, a)
      | NonNumeric \<Rightarrow> Inl (Raised ValueError ''could not convert to array'')
      | PySeq a \<Rightarrow>
          if regular a then Inr (wanted, a)
          else Inl (Raised ValueError ''inhomogeneous shape''))"

subsection \<open>GridLayer\<close>

text \<open>
  The \<^verbatim>\<open>elif\<close> chain of \<^verbatim>\<open>GridLayer._validate_limits\<close> below its dtype test, and the
  statements after it.  On an array of rank 1, \<^verbatim>\<open>limits[..., 0] == limits[..., 1]\<close>
  compares its first two entries and \<^verbatim>\<open>limits.sort(axis=1)\<close> has no axis 1.  The result
  is the array of shape \<open>(N, 2)\<close>, as its list of (min, max) pairs.
\<close>

definition sort_pair :: "real list \<Rightarrow> real \<times> real" where
  "sort_pair r = (min (r ! 0) (r ! 1), max (r ! 0) (r ! 1))"

definition check_limits :: "nat \<Rightarrow> real nd \<Rightarrow> raised + (real \<times> real) list" where
  "check_limits mspace_ndims lims =
    (if ndim lims \<noteq> 1 \<and> ndim lims \<noteq> 2 then
       Inl (Raised ValueError ''limits needs to be a 2-element list or list of 2-element lists'')
     else if ndim lims = 2 \<and> shape lims ! 1 \<noteq> 2 then
       Inl (Raised ValueError ''Needs to be a 2-element list'')
     else if ndim lims = 2 \<and> shape lims ! 0 \<noteq> 1 \<and> shape lims ! 0 \<noteq> mspace_ndims then
       Inl (Raised ValueError ''The number of specified limits needs to be one or N'')
     else if ndim lims = 1 \<and> shape lims ! 0 \<noteq> 2 \<and> shape lims ! 0 \<noteq> mspace_ndims then
       Inl (Raised ValueError ''Needs to be array_like of size 2 or N'')
     else if ndim lims = 1 then
       (if length (leaves lims) < 2 then Inl (Raised IndexError ''index 1 is out of bounds'')
        else if leaves lims ! 0 = leaves lims ! 1 then
          Inl (Raised ValueError ''limits: some pairs are equal'')
        else Inl (Raised AxisError ''axis 1 is out of bounds for array of dimension 1''))
     else if list_ex (\<lambda>r. r ! 0 = r ! 1) (rows lims) then
       Inl (Raised ValueError ''limits: some pairs are equal'')
     else
       (let sorted = map sort_pair (rows lims)
        in if shape lims ! 0 = 1 then Inr (replicate mspace_ndims (hd sorted))
           else Inr sorted))"

text \<open>
  \<^verbatim>\<open>GridLayer._validate_limits\<close>.  Its first test is
  \<^verbatim>\<open>not np.issubdtype(limits.dtype, np.floating) or not np.issubdtype(limits.dtype, np.integer)\<close>,
  and the message of its \<^verbatim>\<open>ValueError\<close> is
  \<^verbatim>\<open>Keyword 'limits' has dtype ..., but expected an integer or float dtype.\<close>
\<close>

definition validate_limits :: "nat \<Rightarrow> real array_like \<Rightarrow> raised + (real \<times> real) list" where
  "validate_limits mspace_ndims limits_arg =
    (case as_array Floating limits_arg of
       Inl e \<Rightarrow> Inl e
     | Inr (dt, lims) \<Rightarrow>
         if \<not> issubdtype_floating dt \<or> \<not> issubdtype_integer dt then
           Inl (Raised ValueError ''limits: expected an integer or float dtype'')
         else check_limits mspace_ndims lims)"

text \<open>
  \<^verbatim>\<open>GridLayer._validate_npoints\<close>.  The entries are integers; the width of \<^verbatim>\<open>np.int32\<close>
  is left out.
\<close>

definition validate_npoints :: "nat \<Rightarrow> int array_like \<Rightarrow> raised + int list" where
  "validate_npoints mspace_ndims npoints_arg =
    (case as_array Integer npoints_arg of
       Inl e \<Rightarrow> Inl e
     | Inr (dt, np) \<Rightarrow>
         if \<not> issubdtype_integer dt then
           Inl (Raised ValueError ''npoints: expected an integer dtype'')
         else if ndim np \<noteq> 1 then
           Inl (Raised ValueError ''npoints needs to be 1D array-like'')
         else if length (leaves np) \<noteq> 1 \<and> length (leaves np) \<noteq> mspace_ndims then
           Inl (Raised ValueError ''npoints must be of size 1 or N'')
         else if list_ex (\<lambda>n. n \<le> 0) (leaves np) then
           Inl (Raised ValueError ''All elements of npoints must be a positive integer'')
         else if length (leaves np) = 1 then Inr (replicate mspace_ndims (hd (leaves np)))
         else Inr (leaves np))"

text \<open>
  \<^verbatim>\<open>np.linspace(start, stop, num=num)\<close> over the reals: \<open>num\<close> evenly spaced samples
  with both ends included, the single sample \<open>start\<close> when \<open>num = 1\<close>.
\<close>

definition linspace :: "real \<Rightarrow> real \<Rightarrow> int \<Rightarrow> raised + real list" where
  "linspace start stop num =
    (if num < 0 then Inl (Raised ValueError ''Number of samples must be non-negative'')
     else if num = 1 then Inr [start]
     else Inr (map (\<lambda>i. start + real i * ((stop - start) / real_of_int (num - 1)))
                 [0..<nat num]))"

text \<open>The loop of \<^verbatim>\<open>_generate_point_matrix\<close> over \<^verbatim>\<open>zip(self.limits, self.npoints)\<close>.\<close>

fun grid_axes :: "(real \<times> real) list \<Rightarrow> int list \<Rightarrow> raised + real list list" where
  "grid_axes ((lo, hi) # ls) (num # ns) =
     (case linspace lo hi (if lo = hi then 1 else num) of
        Inl e \<Rightarrow> Inl e
      | Inr ax \<Rightarrow> (case grid_axes ls ns of Inl e \<Rightarrow> Inl e | Inr axs \<Rightarrow> Inr (ax # axs)))"
| "grid_axes _ _ = Inr []"

text \<open>
  \<^verbatim>\<open>np.meshgrid(*axs, indexing="ij")\<close> stacked along a last axis: the entry at index
  \<open>(i1, ..., iN)\<close> is the point \<open>(axs1[i1], ..., axsN[iN])\<close>.  The validated limits
  and numbers of points have \<open>mspace_ndims\<close> entries each, the length of the last axis.
\<close>

fun mesh :: "real list list \<Rightarrow> real list \<Rightarrow> real nd" where
  "mesh [] point = Node (map Leaf point)"
| "mesh (ax # axs) point = Node (map (\<lambda>x. mesh axs (point @ [x])) ax)"

definition generate_point_matrix :: "(real \<times> real) list \<Rightarrow> int list \<Rightarrow> raised + real nd" where
  "generate_point_matrix lims nums =
     (case grid_axes lims nums of Inl e \<Rightarrow> Inl e | Inr axs \<Rightarrow> Inr (mesh axs []))"

record grid_layer =
  limits :: "(real \<times> real) list"
  npoints :: "int list"
  point_matrix :: "real nd"

text \<open>
  Modelled from the spec: \<^verbatim>\<open>BaseLayer.__init__\<close> (layers/base.py is not among the
  sources).  Construction validates the inputs, raising at once on a bad one, and then
  generates the point matrix of the layer.  \<open>validated\<close> is the outcome of the subclass's
  \<^verbatim>\<open>_validate_inputs\<close>.
\<close>

definition BaseLayer_init :: "raised + (real \<times> real) list \<times> int list \<Rightarrow> raised + grid_layer" where
  "BaseLayer_init validated =
     (case validated of
        Inl e \<Rightarrow> Inl e
      | Inr (lims, nums) \<Rightarrow>
          (case generate_point_matrix lims nums of
             Inl e \<Rightarrow> Inl e
           | Inr pm \<Rightarrow> Inr \<lparr>limits = lims, npoints = nums, point_matrix = pm\<rparr>))"

text \<open>\<^verbatim>\<open>GridLayer._validate_inputs\<close>: the limits first, then the numbers of points.\<close>

definition GridLayer_validate_inputs ::
  "nat \<Rightarrow> real array_like \<Rightarrow> int array_like \<Rightarrow> raised + (real \<times> real) list \<times> int list" where
  "GridLayer_validate_inputs mspace_ndims limits_arg npoints_arg =
     (case validate_limits mspace_ndims limits_arg of
        Inl e \<Rightarrow> Inl e
      | Inr lims \<Rightarrow>
          (case validate_npoints mspace_ndims npoints_arg of
             Inl e \<Rightarrow> Inl e
           | Inr nums \<Rightarrow> Inr (lims, nums)))"

text \<open>
  \<^verbatim>\<open>GridLayer.__init__(ds, limits, npoints=None, **kwargs)\<close>; \<open>steps\<close> is the keyword
  \<^verbatim>\<open>steps\<close> of \<^verbatim>\<open>kwargs\<close> when it is there, and \<open>mspace_ndims\<close> comes from the dataset.
\<close>

definition GridLayer_init ::
  "nat \<Rightarrow> real array_like \<Rightarrow> int array_like option \<Rightarrow> int array_like option
     \<Rightarrow> raised + grid_layer" where
  "GridLayer_init mspace_ndims limits_arg npoints_arg steps =
     (case (case npoints_arg of None \<Rightarrow> steps | Some n \<Rightarrow> Some n) of
        None \<Rightarrow> Inl (Raised TypeError ''missing 1 required positional argument: npoints'')
      | Some n \<Rightarrow> BaseLayer_init (GridLayer_validate_inputs mspace_ndims limits_arg n))"


subsection \<open>GridCNStepLayer\<close>

text \<open>
  \<^verbatim>\<open>np.array(x, dtype=np.float64).squeeze()\<close> unless \<open>x\<close> is an array already, as
  \<^verbatim>\<open>_validate_center\<close> and \<^verbatim>\<open>_validate_step_size\<close> start.
\<close>

definition as_squeezed_array :: "real array_like \<Rightarrow> raised + real nd" where
  "as_squeezed_array x =
     (case x of
        NdArray d a \<Rightarrow> Inr a
      | NonNumeric \<Rightarrow> Inl (Raised ValueError ''could not convert to array'')
      | PySeq a \<Rightarrow>
          if regular a then Inr (squeeze a)
          else Inl (Raised ValueError ''inhomogeneous shape''))"

definition validate_center :: "nat \<Rightarrow> real array_like \<Rightarrow> raised + real list" where
  "validate_center mspace_ndims center_arg =
     (case as_squeezed_array center_arg of
        Inl e \<Rightarrow> Inl e
      | Inr center \<Rightarrow>
          if ndim center \<noteq> 1 then Inl (Raised ValueError ''center is a 1D array-like object'')
          else if length (leaves center) \<noteq> mspace_ndims then
            Inl (Raised ValueError ''center does not have the dimensionality of the motion space'')
          else Inr (leaves center))"

definition validate_step_size :: "nat \<Rightarrow> real array_like \<Rightarrow> raised + real list" where
  "validate_step_size mspace_ndims step_arg =
     (case as_squeezed_array step_arg of
        Inl e \<Rightarrow> Inl e
      | Inr step_size \<Rightarrow>
          if ndim step_size \<noteq> 1 then
            Inl (Raised ValueError ''step_size needs to be 1D array-like'')
          else if length (leaves step_size) \<noteq> 1 \<and> length (leaves step_size) \<noteq> mspace_ndims then
            Inl (Raised ValueError ''step_size must be of size 1 or N'')
          else if length (leaves step_size) = 1 then
            Inr (replicate mspace_ndims (hd (leaves step_size)))
          else Inr (leaves step_size))"

text \<open>
  The limits computed in \<^verbatim>\<open>GridCNStepLayer._validate_inputs\<close>: column 1 is
  \<^verbatim>\<open>0.5 * (npoints - 1) * step_size\<close>, column 0 its negative, and the centre is added to
  both.  The result is a float array of shape \<open>(N, 2)\<close>.
\<close>

definition derive_limits :: "real list \<Rightarrow> int list \<Rightarrow> real list \<Rightarrow> (real \<times> real) list" where
  "derive_limits center nums step_size =
     map (\<lambda>(c, n, s). (- (0.5 * real_of_int (n - 1) * s) + c, 0.5 * real_of_int (n - 1) * s + c))
       (zip center (zip nums step_size))"

definition pairs_array :: "(real \<times> real) list \<Rightarrow> real nd" where
  "pairs_array ps = Node (map (\<lambda>(lo, hi). Node [Leaf lo, Leaf hi]) ps)"

definition GridCNStepLayer_validate_inputs ::
  "nat \<Rightarrow> real array_like \<Rightarrow> int array_like \<Rightarrow> real array_like
     \<Rightarrow> raised + (real \<times> real) list \<times> int list" where
  "GridCNStepLayer_validate_inputs mspace_ndims center_arg npoints_arg step_arg =
     (case validate_center mspace_ndims center_arg of
        Inl e \<Rightarrow> Inl e
      | Inr center \<Rightarrow>
          (case validate_npoints mspace_ndims npoints_arg of
             Inl e \<Rightarrow> Inl e
           | Inr nums \<Rightarrow>
               (case validate_step_size mspace_ndims step_arg of
                  Inl e \<Rightarrow> Inl e
                | Inr step_size \<Rightarrow>
                    (case validate_limits mspace_ndims
                            (NdArray Floating (pairs_array (derive_limits center nums step_size))) of
                       Inl e \<Rightarrow> Inl e
                     | Inr lims \<Rightarrow> Inr (lims, nums)))))"

definition GridCNStepLayer_init ::
  "nat \<Rightarrow> real array_like \<Rightarrow> int array_like \<Rightarrow> real array_like \<Rightarrow> raised + grid_layer" where
  "GridCNStepLayer_init mspace_ndims center_arg npoints_arg step_arg =
     BaseLayer_init (GridCNStepLayer_validate_inputs mspace_ndims center_arg npoints_arg step_arg)"

section \<open>The LaPD XY transform (transform/lapd.py)\<close>

text \<open>
  A keyword value of a constructor, where only its kind matters beyond a real value: a
  number, a string, or any other object.
\<close>

datatype arg = Num real | Str string | Other

text \<open>
  The numbers that \<^verbatim>\<open>isinstance(val, (float, np.floating, int, np.integer))\<close> accepts:
  a Python \<^verbatim>\<open>int\<close> (unbounded; a \<^verbatim>\<open>bool\<close> is one), a float by its real value, the float
  that is not a number, and a signed NumPy integer by its width in bits and its value,
  which lies from \<open>- 2 ^ (w - 1)\<close> up to but not including \<open>2 ^ (w - 1)\<close>.  Left out: the
  infinities, which behave as reals of their sign do, and the unsigned NumPy integers,
  which are never negative.
\<close>

datatype number = PInt int | PFloat real | PNaN | NpInt nat int

datatype distance_arg = Number number | NotNumber

text \<open>The real value of a number, if it has one.\<close>

fun real_of :: "number \<Rightarrow> real option" where
  "real_of (PInt i) = Some (real_of_int i)"
| "real_of (PFloat r) = Some r"
| "real_of PNaN = None"
| "real_of (NpInt w v) = Some (real_of_int v)"

text \<open>\<^verbatim>\<open>val < 0.0\<close>: false when \<open>val\<close> is not a number.\<close>

fun less_than_zero :: "number \<Rightarrow> bool" where
  "less_than_zero (PInt i) = (i < 0)"
| "less_than_zero (PFloat r) = (r < 0)"
| "less_than_zero PNaN = False"
| "less_than_zero (NpInt w v) = (v < 0)"

text \<open>
  \<^verbatim>\<open>np.abs\<close> on an integer of \<open>w\<close> bits: in two's complement the most negative value
  has no positive counterpart and is returned as it is.
\<close>

definition wrapping_abs :: "nat \<Rightarrow> int \<Rightarrow> int" where
  "wrapping_abs w v = (if v = - (2 ^ (w - 1)) then v else \<bar>v\<bar>)"

text \<open>
  \<^verbatim>\<open>np.abs(val)\<close>.  NumPy takes a Python \<^verbatim>\<open>int\<close> that fits 64 bits as an \<^verbatim>\<open>int64\<close>
  (its default integer, taken as 64 bits wide) and a larger one as a Python object, whose
  own \<^verbatim>\<open>abs\<close> it calls.
\<close>

fun np_abs :: "number \<Rightarrow> number" where
  "np_abs (PInt i) =
     (if - (2 ^ 63) \<le> i \<and> i < 2 ^ 63 then NpInt 64 (wrapping_abs 64 i) else PInt \<bar>i\<bar>)"
| "np_abs (PFloat r) = PFloat \<bar>r\<bar>"
| "np_abs PNaN = PNaN"
| "np_abs (NpInt w v) = NpInt w (wrapping_abs w v)"


text \<open>
  The inputs of a \<^verbatim>\<open>LaPDXYTransform\<close>, with the three distances of type \<open>'a\<close>: numbers
  as they are stored by the validation, reals as the matrix functions compute with them.
\<close>

record 'a lapd_xy =
  pivot_to_center :: 'a
  pivot_to_drive :: 'a
  probe_axis_offset :: 'a
  drive_polarity :: "real \<times> real"
  mspace_polarity :: "real \<times> real"

text \<open>
  One pass of the first loop of \<^verbatim>\<open>LaPDXYTransform._validate_inputs\<close>: the value stored
  under the key, and whether \<^verbatim>\<open>warn\<close> was called.
\<close>

definition validate_distance :: "distance_arg \<Rightarrow> raised + number \<times> bool" where
  "validate_distance val =
     (case val of
        Number v \<Rightarrow> if less_than_zero v then Inr (np_abs v, True) else Inr (v, False)
      | NotNumber \<Rightarrow> Inl (Raised TypeError ''expected type float or int''))"

text \<open>One pass of the second loop: the polarity as an array of shape \<open>(2,)\<close>.\<close>

definition validate_polarity :: "real nd \<Rightarrow> raised + real \<times> real" where
  "validate_polarity polarity =
     (if \<not> regular polarity then Inl (Raised ValueError ''inhomogeneous shape'')
      else if shape polarity \<noteq> [2] then
        Inl (Raised ValueError ''polarity is supposed to be a 2-element array'')
      else if \<not> list_all (\<lambda>v. \<bar>v\<bar> = 1) (leaves polarity) then
        Inl (Raised ValueError ''polarity is supposed to be a 2-element array of 1 or -1'')
      else Inr (leaves polarity ! 0, leaves polarity ! 1))"

text \<open>
  \<^verbatim>\<open>LaPDXYTransform._validate_inputs\<close>.  The first loop runs over a set of three keys,
  in an order the source does not fix; each of its raises is the same \<^verbatim>\<open>TypeError\<close>, so
  the outcome does not depend on the order.  With the transform come the keys that were
  warned about.
\<close>

definition LaPDXYTransform_validate_inputs ::
  "distance_arg \<Rightarrow> distance_arg \<Rightarrow> distance_arg \<Rightarrow> real nd \<Rightarrow> real nd
     \<Rightarrow> raised + number lapd_xy \<times> string set" where
  "LaPDXYTransform_validate_inputs ptc ptd pao dpol mpol =
     (case validate_distance ptc of
        Inl e \<Rightarrow> Inl e
      | Inr (c, wc) \<Rightarrow>
     (case validate_distance ptd of
        Inl e \<Rightarrow> Inl e
      | Inr (d, wd) \<Rightarrow>
     (case validate_distance pao of
        Inl e \<Rightarrow> Inl e
      | Inr (a, wa) \<Rightarrow>
     (case validate_polarity dpol of
        Inl e \<Rightarrow> Inl e
      | Inr dp \<Rightarrow>
     (case validate_polarity mpol of
        Inl e \<Rightarrow> Inl e
      | Inr mp \<Rightarrow>
          Inr (\<lparr>pivot_to_center = c, pivot_to_drive = d, probe_axis_offset = a,
                drive_polarity = dp, mspace_polarity = mp\<rparr>,
               (if wc then {''pivot_to_center''} else {}) \<union>
               (if wd then {''pivot_to_drive''} else {}) \<union>
               (if wa then {''probe_axis_offset''} else {})))))))"

text \<open>
  The stored inputs as the matrix functions meet them in floating-point arithmetic: each
  distance by its real value, and no transform over the reals when one is not a number.
\<close>

definition parameters :: "number lapd_xy \<Rightarrow> real lapd_xy option" where
  "parameters inp =
     (case (real_of (pivot_to_center inp), real_of (pivot_to_drive inp),
            real_of (probe_axis_offset inp)) of
        (Some c, Some d, Some a) \<Rightarrow>
          Some \<lparr>pivot_to_center = c, pivot_to_drive = d, probe_axis_offset = a,
                drive_polarity = drive_polarity inp, mspace_polarity = mspace_polarity inp\<rparr>
      | _ \<Rightarrow> None)"

subsection \<open>Matrices\<close>

type_synonym matrix = "real list list"

definition matmul :: "matrix \<Rightarrow> matrix \<Rightarrow> matrix" where
  "matmul A B =
     map (\<lambda>row. map (\<lambda>j. sum_list (map (\<lambda>k. row ! k * (B ! k) ! j) [0..<length B]))
                   [0..<length (hd B)]) A"

text \<open>\<^verbatim>\<open>np.diag(polarity.tolist() + [1.0])\<close>\<close>

definition diag_polarity :: "real \<times> real \<Rightarrow> matrix" where
  "diag_polarity p = [[fst p, 0, 0], [0, snd p, 0], [0, 0, 1]]"

definition polarised :: "real \<times> real \<Rightarrow> real \<times> real \<Rightarrow> real \<times> real" where
  "polarised pol p = (fst pol * fst p, snd pol * snd p)"

text \<open>
  The angle \<^verbatim>\<open>theta\<close> of \<^verbatim>\<open>_matrix_to_drive\<close> for one point, after the polarity has
  been applied to it: \<^verbatim>\<open>-np.arctan(y / (x + pivot_to_center))\<close>.  Where the divisor is
  zero, the floating-point quotient is the positive infinity for a positive \<open>y\<close> and the
  negative infinity for a negative \<open>y\<close>, with the arctangents \<open>pi / 2\<close> and
  \<open>- (pi / 2)\<close>; for \<open>y = 0\<close>, at the pivot itself, it is not a number: \<open>None\<close>.  (The
  zero divisor is the positive zero, as the sum of two opposite numbers is.)
\<close>

definition theta_to_drive :: "real lapd_xy \<Rightarrow> real \<times> real \<Rightarrow> real option" where
  "theta_to_drive tr p =
     (let pt = polarised (mspace_polarity tr) p
      in if fst pt + pivot_to_center tr = 0 then
           (if 0 < snd pt then Some (- (pi / 2))
            else if snd pt < 0 then Some (pi / 2)
            else None)
         else Some (- arctan (snd pt / (fst pt + pivot_to_center tr))))"

text \<open>
  \<^verbatim>\<open>LaPDXYTransform._matrix_to_drive\<close> for one point of the batch.  Where the divisor is
  zero the entries of the matrix are made from the tangent and the cosine of the float
  next to \<open>pi / 2\<close> (or from no number at all), values that no computation over the reals
  gives: \<open>None\<close>.
\<close>

definition matrix_to_drive :: "real lapd_xy \<Rightarrow> real \<times> real \<Rightarrow> matrix option" where
  "matrix_to_drive tr p =
     (let pt = polarised (mspace_polarity tr) p
      in if fst pt + pivot_to_center tr = 0 then None
         else
           (case theta_to_drive tr p of
              None \<Rightarrow> None
            | Some theta \<Rightarrow>
                (let T0 = [[0, 0, sqrt ((snd pt)\<^sup>2 + (pivot_to_center tr + fst pt)\<^sup>2)
                                    - pivot_to_center tr],
                           [0, 0, pivot_to_drive tr * tan theta
                                    + probe_axis_offset tr * (1 - 1 / cos theta)],
                           [0, 0, 1]]
                 in Some (matmul (diag_polarity (drive_polarity tr))
                            (matmul T0 (diag_polarity (mspace_polarity tr)))))))"

text \<open>
  The angle \<^verbatim>\<open>theta\<close> of \<^verbatim>\<open>_matrix_to_motion_space\<close> for one drive point:
  \<^verbatim>\<open>np.arctan(tan_beta) - np.arcsin(sine_alpha)\<close>.  \<open>None\<close> where a divisor is zero or
  the arcsine is taken outside \<open>[-1, 1]\<close>.
\<close>

definition theta_to_motion_space :: "real lapd_xy \<Rightarrow> real \<times> real \<Rightarrow> real option" where
  "theta_to_motion_space tr e =
     (let pt = polarised (drive_polarity tr) e;
          root = sqrt ((pivot_to_drive tr)\<^sup>2 + (- probe_axis_offset tr + snd pt)\<^sup>2)
      in if root = 0 \<or> pivot_to_drive tr = 0 then None
         else
           (let sine_alpha = probe_axis_offset tr / root;
                tan_beta = (- probe_axis_offset tr + snd pt) / - pivot_to_drive tr
            in if \<bar>sine_alpha\<bar> > 1 then None
               else Some (arctan tan_beta - arcsin sine_alpha)))"

text \<open>\<^verbatim>\<open>LaPDXYTransform._matrix_to_motion_space\<close> for one point of the batch.\<close>

definition matrix_to_motion_space :: "real lapd_xy \<Rightarrow> real \<times> real \<Rightarrow> matrix option" where
  "matrix_to_motion_space tr e =
     (case theta_to_motion_space tr e of
        None \<Rightarrow> None
      | Some theta \<Rightarrow>
          (let T0 = [[cos theta, 0, - pivot_to_center tr * (1 - cos theta)],
                     [sin theta, 0, pivot_to_center tr * sin theta],
                     [0, 0, 1]]
           in Some (matmul (diag_polarity (mspace_polarity tr))
                      (matmul T0 (diag_polarity (drive_polarity tr))))))"

text \<open>
  Modelled from the spec: how a transform matrix is applied to its point
  (\<^verbatim>\<open>BaseTransform\<close>, transform/base.py, is not among the sources).  The matrix is
  a 3x3 homogeneous transform: it multiplies the column \<open>(x, y, 1)\<close> and the first two
  entries of the product are the transformed point.
\<close>

definition apply_homogeneous :: "matrix \<Rightarrow> real \<times> real \<Rightarrow> real \<times> real" where
  "apply_homogeneous T p =
     (let col = matmul T [[fst p], [snd p], [1]]
      in (hd (col ! 0), hd (col ! 1)))"

definition to_drive :: "real lapd_xy \<Rightarrow> real \<times> real \<Rightarrow> (real \<times> real) option" where
  "to_drive tr p = map_option (\<lambda>T. apply_homogeneous T p) (matrix_to_drive tr p)"

definition to_motion_space :: "real lapd_xy \<Rightarrow> real \<times> real \<Rightarrow> (real \<times> real) option" where
  "to_motion_space tr e = map_option (\<lambda>T. apply_homogeneous T e) (matrix_to_motion_space tr e)"

text \<open>
  The two-argument arctangent that the specification names: the angle in \<open>(-pi, pi]\<close>
  of the point \<open>(x, y)\<close>, with \<open>atan2 0 0 = 0\<close>.
\<close>

definition spec_atan2 :: "real \<Rightarrow> real \<Rightarrow> real" where
  "spec_atan2 y x =
     (if 0 < x then arctan (y / x)
      else if x < 0 \<and> 0 \<le> y then arctan (y / x) + pi
      else if x < 0 \<and> y < 0 then arctan (y / x) - pi
      else if 0 < y then pi / 2
      else if y < 0 then - (pi / 2)
      else 0)"

section \<open>The LaPD XY exclusion (motion\_list/exclusions/lapd.py)\<close>

text \<open>ASCII \<^verbatim>\<open>str.lower\<close> (and \<^verbatim>\<open>str.casefold\<close>, the same on ASCII text).\<close>

definition lower_char :: "char \<Rightarrow> char" where
  "lower_char c =
     (case map_of (zip ''ABCDEFGHIJKLMNOPQRSTUVWXYZ'' ''abcdefghijklmnopqrstuvwxyz'') c of
        None \<Rightarrow> c
      | Some l \<Rightarrow> l)"

definition lower :: "string \<Rightarrow> string" where
  "lower s = map lower_char s"

text \<open>\<^verbatim>\<open>LaPDXYExclusion._port_location_to_angle\<close>\<close>

definition port_location_to_angle :: "string \<Rightarrow> real option" where
  "port_location_to_angle k =
    (if k = ''e'' \<or> k = ''east'' then Some 0
     else if k = ''t'' \<or> k = ''top'' then Some 90
     else if k = ''w'' \<or> k = ''west'' then Some 180
     else if k = ''b'' \<or> k = ''bottom'' \<or> k = ''bot'' then Some 270
     else None)"

record exclusion_inputs =
  diameter :: real
  pivot_radius :: "real option"
  port_location :: "real option"
  cone_full_angle :: "real option"
  include_cone :: bool

text \<open>
  \<^verbatim>\<open>LaPDXYExclusion._validate_inputs\<close>, with numeric \<^verbatim>\<open>diameter\<close> and
  \<^verbatim>\<open>pivot_radius\<close>.  The test on the cone angle is the chained comparison
  \<^verbatim>\<open>0 <= self.cone_full_angle >= 180\<close>, that is
  \<^verbatim>\<open>0 <= cone_full_angle and cone_full_angle >= 180\<close>.
\<close>

definition LaPDXYExclusion_validate_inputs ::
  "real \<Rightarrow> real \<Rightarrow> arg \<Rightarrow> arg \<Rightarrow> bool \<Rightarrow> raised + exclusion_inputs" where
  "LaPDXYExclusion_validate_inputs diam pivot port cone incl =
     (if \<not> incl then
        Inr \<lparr>diameter = \<bar>diam\<bar>, pivot_radius = None, port_location = None,
             cone_full_angle = None, include_cone = incl\<rparr>
      else
        (case cone of
           Num c \<Rightarrow>
             if 0 \<le> c \<and> c \<ge> 180 then Inl (Raised ValueError [])
             else
               (case (case port of
                        Str s \<Rightarrow>
                          (case port_location_to_angle (lower s) of
                             None \<Rightarrow> Inl (Raised ValueError [])
                           | Some a \<Rightarrow> Inr (Num a))
                      | _ \<Rightarrow> Inr port) of
                  Inl e \<Rightarrow> Inl e
                | Inr (Num a) \<Rightarrow>
                    if \<not> (- 180 < a \<and> a < 360) then
                      Inl (Raised ValueError ''expected a value between (-180, 360) degrees'')
                    else
                      Inr \<lparr>diameter = \<bar>diam\<bar>, pivot_radius = Some \<bar>pivot\<bar>,
                           port_location = Some a, cone_full_angle = Some c,
                           include_cone = incl\<rparr>
                | Inr _ \<Rightarrow> Inl (Raised TypeError []))
         | _ \<Rightarrow> Inl (Raised ValueError [])))"


section \<open>Concrete inputs\<close>

text \<open>A freshly created motor with two handlers connected to its signal.\<close>

definition motor0 :: motor where
  "motor0 = \<lparr>status = default_status, handlers = [0, 1], emitted = [], handler_calls = [],
             sent = [], n_send = 0, n_connect = 0, n_recv = 0\<rparr>"

text \<open>A healthy connection to a motor that reports an alarm.\<close>

definition net_alarm :: net where
  "net_alarm =
     \<lparr>send_result = (\<lambda>k. None), connect_result = (\<lambda>k. None),
      recv_result = (\<lambda>k. if k = 0 then Inr ''RS=AR'' else if k = 1 then Inr ''IP=-15''
                          else Inr ''AL=0042'')\<rparr>"

text \<open>A healthy connection to an enabled motor that moves and is in position.\<close>

definition net_rpf :: net where
  "net_rpf =
     \<lparr>send_result = (\<lambda>k. None), connect_result = (\<lambda>k. None),
      recv_result = (\<lambda>k. if k = 0 then Inr ''RS=RPF'' else Inr ''IP=1500'')\<rparr>"

text \<open>
  A broken pipe on the first send; the third connection attempt succeeds; the re-sent
  request meets a connection reset.
\<close>

definition net_resend_fails :: net where
  "net_resend_fails =
     \<lparr>send_result = (\<lambda>k. if k = 0 then Some BrokenPipeError else Some ConnectionResetError),
      connect_result = (\<lambda>k. if k < 2 then Some TimeoutError else None),
      recv_result = (\<lambda>k. Inr ''RS=R'')\<rparr>"

text \<open>A connection that takes the request and is reset while the reply is read.\<close>

definition net_reset_on_recv :: net where
  "net_reset_on_recv =
     \<lparr>send_result = (\<lambda>k. None), connect_result = (\<lambda>k. None),
      recv_result = (\<lambda>k. Inl ConnectionResetError)\<rparr>"

text \<open>A broken pipe on the first send and a motor that refuses every connection.\<close>

definition net_unreachable :: net where
  "net_unreachable =
     \<lparr>send_result = (\<lambda>k. Some BrokenPipeError),
      connect_result = (\<lambda>k. if k = 2 then Some ConnectionRefusedError else Some SocketTimeout),
      recv_result = (\<lambda>k. Inr ''RS=R'')\<rparr>"

text \<open>
  A transform that passes validation, with unit distances, no probe-axis offset and the
  default polarities; its pivot is the motion-space point \<open>(1, 0)\<close>.
\<close>

definition lapd0 :: "real lapd_xy" where
  "lapd0 = \<lparr>pivot_to_center = 1, pivot_to_drive = 1, probe_axis_offset = 0,
            drive_polarity = (1, 1), mspace_polarity = (- 1, 1)\<rparr>"

text \<open>The inputs that validation stores for it.\<close>

definition lapd0_inputs :: "number lapd_xy" where
  "lapd0_inputs = \<lparr>pivot_to_center = PInt 1, pivot_to_drive = PInt 1, probe_axis_offset = PInt 0,
                   drive_polarity = (1, 1), mspace_polarity = (- 1, 1)\<rparr>"

text \<open>The transform of the docstring's example for a probe drive on an east port.\<close>

definition lapd_east :: "real lapd_xy" where
  "lapd_east = \<lparr>pivot_to_center = 62.94, pivot_to_drive = 133.51, probe_axis_offset = 20.16,
                drive_polarity = (1, 1), mspace_polarity = (- 1, 1)\<rparr>"

section \<open>Properties of the motor protocol driver\<close>

subsection \<open>Status updates and the change signal\<close>

lemma filter_empty_list_ex: "(filter P xs = []) = (\<not> list_ex P xs)"
  by (induction xs) auto

text \<open>
  C8, as the code has it.  A status update compares every item of the new status with
  the old one.  If none differs nothing is emitted; if at least one differs, \<^verbatim>\<open>emit\<close> is
  called exactly once, every connected handler is called once, and the payload is the flag
  \<^verbatim>\<open>True\<close>.  The new status is the old one overwritten with the given values.
\<close>

theorem update_status_emits_flag_once:
  "emitted (update_status vals m) =
     emitted m @ (if list_ex (differs (status m)) (dict_merge (status m) vals)
                  then [Value (PyBool True)] else [])
   \<and> handler_calls (update_status vals m) =
     handler_calls m @ (if list_ex (differs (status m)) (dict_merge (status m) vals)
                        then map (\<lambda>h. (h, Value (PyBool True))) (handlers m) else [])
   \<and> status (update_status vals m) = dict_merge (status m) vals"
  by (simp add: update_status_def emit_def Let_def changed_fields_def filter_empty_list_ex)

theorem update_status_emits_flag_once_witness:
  "emitted (update_status [(''position'', PyInt 5)] motor0) = [Value (PyBool True)]
   \<and> handler_calls (update_status [(''position'', PyInt 5)] motor0) =
       [(0, Value (PyBool True)), (1, Value (PyBool True))]
   \<and> emitted (update_status [(''position'', PyNone)] motor0) = []"
  using update_status_emits_flag_once [of "[(''position'', PyInt 5)]" motor0]
    update_status_emits_flag_once [of "[(''position'', PyNone)]" motor0]
  by (simp add: motor0_def default_status_def differs_def)

text \<open>
  C8 as stated fails: the position changes from \<^verbatim>\<open>None\<close> to 5, the changed fields are
  \<^verbatim>\<open>{"position": 5}\<close>, and the one payload emitted is \<^verbatim>\<open>True\<close>, not those fields.
\<close>

theorem update_status_payload_counterexample:
  "changed_fields (status motor0) [(''position'', PyInt 5)] = [(''position'', PyInt 5)]
   \<and> emitted (update_status [(''position'', PyInt 5)] motor0) = [Value (PyBool True)]
   \<and> emitted (update_status [(''position'', PyInt 5)] motor0)
       \<noteq> [Fields (changed_fields (status motor0) [(''position'', PyInt 5)])]"
  by (simp add: update_status_def emit_def Let_def motor0_def changed_fields_def
        default_status_def differs_def)



subsection \<open>Decoding the status reply\<close>

lemma map_of_dict_set: "map_of (dict_set k v st) k' = (if k' = k then Some v else map_of st k')"
  by (induction st) auto

lemma alarm_decode_letter:
  "map_of (decode_letter c st) ''alarm'' =
     (if c = CHR ''A'' then Some (PyBool True) else map_of st ''alarm'')"
  by (simp add: decode_letter_def map_of_dict_set)

lemma alarm_fold_keep:
  "map_of st ''alarm'' = Some (PyBool True) \<Longrightarrow>
   map_of (fold decode_letter rtn st) ''alarm'' = Some (PyBool True)"
  by (induction rtn arbitrary: st) (simp_all add: alarm_decode_letter)

lemma alarm_fold_set:
  "CHR ''A'' \<in> set rtn \<Longrightarrow> map_of (fold decode_letter rtn st) ''alarm'' = Some (PyBool True)"
proof (induction rtn arbitrary: st)
  case Nil
  then show ?case by simp
next
  case (Cons c cs)
  show ?case
  proof (cases "c = CHR ''A''")
    case True
    then show ?thesis by (simp add: alarm_fold_keep alarm_decode_letter)
  next
    case False
    with Cons show ?thesis by simp
  qed
qed

lemma send_raw_command_ok:
  "send_result nw (n_send m) = None \<Longrightarrow>
   send_raw_command nw c m =
     (recv_result nw (n_recv m),
      m\<lparr>sent := sent m @ [frame c], n_send := Suc (n_send m), n_recv := Suc (n_recv m)\<rparr>)"
  by (simp add: send_raw_command_def send_with_reconnect_def socket_send_def recv_def)

lemma send_command_request_status:
  assumes "send_result nw (n_send m) = None"
    and "recv_result nw (n_recv m) = Inr (''RS='' @ rtn)"
    and "rtn \<noteq> []" and "list_all (\<lambda>c. c \<in> set ''ADEFHJMPRSTW'') rtn"
  shows "send_command nw ''request_status'' None m =
     (Inr (PyStr rtn),
      m\<lparr>sent := sent m @ [frame ''RS''], n_send := Suc (n_send m), n_recv := Suc (n_recv m)\<rparr>)"
  using assms
  by (simp add: send_command_def commands_def cmd_def send_raw_command_ok strip_prefix_def)

lemma send_command_get_position:
  assumes "send_result nw (n_send m) = None"
    and "recv_result nw (n_recv m) = Inr (''IP='' @ p)"
    and "p = ds \<or> p = CHR ''-'' # ds" and "ds \<noteq> []" and "list_all is_digit ds"
  shows "send_command nw ''get_position'' None m =
     (Inr (PyInt (py_int_of_str p)),
      m\<lparr>sent := sent m @ [frame ''IP''], n_send := Suc (n_send m), n_recv := Suc (n_recv m)\<rparr>)"
proof -
  from assms(4,5) have "hd ds \<noteq> CHR ''-''"
    by (cases ds) (auto simp: is_digit_def)
  with assms show ?thesis
    by (auto simp: send_command_def commands_def cmd_def send_raw_command_ok strip_prefix_def)
qed

lemma send_command_alarm:
  assumes "send_result nw (n_send m) = None"
    and "recv_result nw (n_recv m) = Inr (''AL='' @ al)"
    and "length al = 4" and "list_all is_digit al"
  shows "send_command nw ''alarm'' None m =
     (Inr (PyStr al),
      m\<lparr>sent := sent m @ [frame ''AL''], n_send := Suc (n_send m), n_recv := Suc (n_recv m)\<rparr>)"
  using assms
  by (simp add: send_command_def commands_def cmd_def send_raw_command_ok strip_prefix_def)

lemma decode_status_RPF:
  "decode_status ''RPF'' =
     [(''alarm'', PyBool False), (''enabled'', PyBool True), (''fault'', PyBool False),
      (''moving'', PyBool True), (''homing'', PyBool False), (''jogging'', PyBool False),
      (''motion_in_progress'', PyBool False), (''in_position'', PyBool True),
      (''stopping'', PyBool False), (''waiting'', PyBool False)]"
  by (simp add: decode_status_def decode_letter_def null_status_def)

text \<open>
  C4, as the code has it.  The status string \<^verbatim>\<open>RPF\<close> decodes to enabled (\<^verbatim>\<open>R\<close>),
  in position (\<^verbatim>\<open>P\<close>) and moving (\<^verbatim>\<open>F\<close>), every other flag false.  And whenever the
  status string holds the letter \<^verbatim>\<open>A\<close> (and the three requests are answered), the
  alarm request \<^verbatim>\<open>AL\<close> is sent after the status and position requests, and its decoded
  message goes, with the flags and the position, into one single call of
  \<^verbatim>\<open>update_status\<close>.
\<close>

theorem retrieve_motor_status_decodes:
  assumes A: "CHR ''A'' \<in> set rtn"
    and letters: "list_all (\<lambda>c. c \<in> set ''ADEFHJMPRSTW'') rtn"
    and s0: "send_result nw (n_send m) = None"
    and r0: "recv_result nw (n_recv m) = Inr (''RS='' @ rtn)"
    and s1: "send_result nw (Suc (n_send m)) = None"
    and r1: "recv_result nw (Suc (n_recv m)) = Inr (''IP='' @ p)"
    and p: "p = ds \<or> p = CHR ''-'' # ds" "ds \<noteq> []" "list_all is_digit ds"
    and s2: "send_result nw (Suc (Suc (n_send m))) = None"
    and r2: "recv_result nw (Suc (Suc (n_recv m))) = Inr (''AL='' @ al)"
    and al: "length al = 4" "list_all is_digit al"
  shows "decode_status ''RPF'' =
           [(''alarm'', PyBool False), (''enabled'', PyBool True), (''fault'', PyBool False),
            (''moving'', PyBool True), (''homing'', PyBool False), (''jogging'', PyBool False),
            (''motion_in_progress'', PyBool False), (''in_position'', PyBool True),
            (''stopping'', PyBool False), (''waiting'', PyBool False)]
       \<and> retrieve_motor_status nw m =
           (Inr (),
            update_status
              (dict_set ''alarm_message'' (PyStr (alarm_text al))
                 (dict_set ''position'' (PyInt (py_int_of_str p)) (decode_status rtn)))
              (m\<lparr>sent := sent m @ [frame ''RS'', frame ''IP'', frame ''AL''],
                 n_send := n_send m + 3, n_recv := n_recv m + 3\<rparr>))"
proof -
  from A have ne: "rtn \<noteq> []" by auto
  let ?m1 = "m\<lparr>sent := sent m @ [frame ''RS''], n_send := Suc (n_send m), n_recv := Suc (n_recv m)\<rparr>"
  let ?m2 = "?m1\<lparr>sent := sent ?m1 @ [frame ''IP''], n_send := Suc (n_send ?m1), n_recv := Suc (n_recv ?m1)\<rparr>"
  let ?m3 = "?m2\<lparr>sent := sent ?m2 @ [frame ''AL''], n_send := Suc (n_send ?m2), n_recv := Suc (n_recv ?m2)\<rparr>"
  have c1: "send_command nw ''request_status'' None m = (Inr (PyStr rtn), ?m1)"
    by (rule send_command_request_status [OF s0 r0 ne letters])
  have c2: "send_command nw ''get_position'' None ?m1 = (Inr (PyInt (py_int_of_str p)), ?m2)"
    by (rule send_command_get_position [where ds = ds]) (simp_all add: s1 r1 p)
  have c3: "send_command nw ''alarm'' None ?m2 = (Inr (PyStr al), ?m3)"
    by (rule send_command_alarm) (simp_all add: s2 r2 al)
  have alarm: "map_of (dict_set ''position'' (PyInt (py_int_of_str p)) (decode_status rtn)) ''alarm''
      = Some (PyBool True)"
    using A by (simp add: map_of_dict_set decode_status_def alarm_fold_set)
  have ra: "retrieve_motor_alarm nw True ?m2 = (Inr (alarm_text al), ?m3)"
    using c3 by (simp add: retrieve_motor_alarm_def Let_def)
  have "retrieve_motor_status nw m =
           (Inr (),
            update_status
              (dict_set ''alarm_message'' (PyStr (alarm_text al))
                 (dict_set ''position'' (PyInt (py_int_of_str p)) (decode_status rtn)))
              (m\<lparr>sent := sent m @ [frame ''RS'', frame ''IP'', frame ''AL''],
                 n_send := n_send m + 3, n_recv := n_recv m + 3\<rparr>))"
    unfolding retrieve_motor_status_def
    using c2 ra alarm by (simp add: c1 Let_def numeral_3_eq_3 del: dict_set.simps)
  with decode_status_RPF show ?thesis by simp
qed

lemma alarm_text_0042: "alarm_text ''0042'' = ''0040 - under voltage :: 0002 - CCW limit''"
  by code_simp

lemma py_int_m15: "py_int_of_str ''-15'' = - 15"
  by (simp add: py_int_of_str_def parse_nat_def digit_val_def)

theorem retrieve_motor_status_decodes_witness:
  "status (snd (retrieve_motor_status net_alarm motor0)) =
     [(''connected'', PyBool False), (''position'', PyInt (- 15)), (''alarm'', PyBool True),
      (''enabled'', PyBool True), (''fault'', PyBool False), (''moving'', PyBool False),
      (''homing'', PyBool False), (''jogging'', PyBool False),
      (''motion_in_progress'', PyBool False), (''in_position'', PyBool False),
      (''stopping'', PyBool False), (''waiting'', PyBool False),
      (''alarm_message'', PyStr ''0040 - under voltage :: 0002 - CCW limit'')]
   \<and> sent (snd (retrieve_motor_status net_alarm motor0)) = [frame ''RS'', frame ''IP'', frame ''AL'']
   \<and> emitted (snd (retrieve_motor_status net_alarm motor0)) = [Value (PyBool True)]"
  using retrieve_motor_status_decodes [of "''AR''" net_alarm motor0 "''-15''" "''15''" "''0042''"]
  by (simp add: net_alarm_def motor0_def is_digit_def update_status_def emit_def Let_def
        changed_fields_def differs_def default_status_def decode_status_def decode_letter_def
        null_status_def alarm_text_0042 py_int_m15)

text \<open>
  C4 as stated fails: after the reply \<^verbatim>\<open>RS=RPF\<close> the flags \<^verbatim>\<open>moving\<close> and
  \<^verbatim>\<open>in_position\<close> are true, not false.
\<close>

theorem retrieve_motor_status_RPF_counterexample:
  "map_of (status (snd (retrieve_motor_status net_rpf motor0))) ''moving'' = Some (PyBool True)
   \<and> map_of (status (snd (retrieve_motor_status net_rpf motor0))) ''in_position'' = Some (PyBool True)
   \<and> map_of (decode_status ''RPF'') ''moving'' \<noteq> Some (PyBool False)"
  by (simp add: retrieve_motor_status_def send_command_def commands_def cmd_def
        send_raw_command_def send_with_reconnect_def socket_send_def recv_def strip_prefix_def
        net_rpf_def motor0_def is_digit_def update_status_def emit_def Let_def
        changed_fields_def differs_def default_status_def decode_status_def decode_letter_def
        null_status_def)



subsection \<open>Reconnecting\<close>

lemma update_status_counters [simp]:
  "n_send (update_status vals m) = n_send m"
  "n_connect (update_status vals m) = n_connect m"
  "n_recv (update_status vals m) = n_recv m"
  "sent (update_status vals m) = sent m"
  by (simp_all add: update_status_def emit_def Let_def)

lemma connect_unrolled:
  "connect nw m =
    (let k = n_connect m in
     case connect_result nw k of
       None \<Rightarrow> (Inr (), update_status [(''connected'', PyBool True)] (m\<lparr>n_connect := k + 1\<rparr>))
     | Some x0 \<Rightarrow>
        if \<not> caught_by_connect x0 then (Inl x0, m\<lparr>n_connect := k + 1\<rparr>)
        else (case connect_result nw (k + 1) of
           None \<Rightarrow> (Inr (), update_status [(''connected'', PyBool True)] (m\<lparr>n_connect := k + 2\<rparr>))
         | Some x1 \<Rightarrow>
            if \<not> caught_by_connect x1 then (Inl x1, m\<lparr>n_connect := k + 2\<rparr>)
            else (case connect_result nw (k + 2) of
               None \<Rightarrow> (Inr (), update_status [(''connected'', PyBool True)] (m\<lparr>n_connect := k + 3\<rparr>))
             | Some x2 \<Rightarrow> (Inl x2, m\<lparr>n_connect := k + 3\<rparr>))))"
  by (simp add: connect_def max_connection_attempts_def numeral_3_eq_3 numeral_2_eq_2 Let_def
           split: option.splits)

lemma all_less_3: "(\<forall>j<3. P j) = (P 0 \<and> P 1 \<and> P (2::nat))"
proof -
  have "\<And>j::nat. j < 3 \<longleftrightarrow> j = 0 \<or> j = 1 \<or> j = 2" by arith
  then show ?thesis by auto
qed

lemma all_less_2: "(\<forall>j<2. P j) = (P 0 \<and> P (1::nat))"
proof -
  have "\<And>j::nat. j < 2 \<longleftrightarrow> j = 0 \<or> j = 1" by arith
  then show ?thesis by auto
qed

lemma all_less_1: "(\<forall>j<1. P j) = P (0::nat)"
  by auto

text \<open>
  A first send that succeeds, or fails with anything but a \<^verbatim>\<open>ConnectionError\<close>, is
  the only send, and no connection is attempted.
\<close>

lemma send_raw_command_no_reconnect:
  assumes "\<forall>e. send_result nw (n_send m) = Some e \<longrightarrow> \<not> is_ConnectionError e"
  shows "n_connect (snd (send_raw_command nw c m)) = n_connect m
       \<and> sent (snd (send_raw_command nw c m)) = sent m @ [frame c]"
  using assms
  by (auto simp: send_raw_command_def send_with_reconnect_def socket_send_def recv_def
        split: option.splits)

text \<open>
  C5, as the code has it.  Let the first \<^verbatim>\<open>send\<close> of a command raise a
  \<^verbatim>\<open>ConnectionError\<close>.  Then
  \<^verbatim>\<open>connect\<close> runs, with at least one and at most \<^verbatim>\<open>max_connection_attempts\<close> (three)
  attempts, and the command is handed to \<^verbatim>\<open>send\<close> at most twice.  If an attempt
  succeeds after caught failures only, the command is sent exactly once more; an exception
  of that second send is the result of the call and nothing is received or retried.  If
  all three attempts fail with caught exceptions, the command is not sent again and the
  exception of the last attempt is the result of the call.
\<close>

theorem send_raw_command_reconnects_once:
  assumes fail: "send_result nw (n_send m) = Some e"
      and conn: "is_ConnectionError e"
      and run: "send_raw_command nw c m = (r, m')"
  shows "n_connect m < n_connect m' \<and> n_connect m' \<le> n_connect m + max_connection_attempts
       \<and> n_send m' \<le> n_send m + 2
       \<and> (\<forall>j<3. (\<forall>i<j. \<exists>x. connect_result nw (n_connect m + i) = Some x \<and> caught_by_connect x)
                 \<and> connect_result nw (n_connect m + j) = None \<longrightarrow>
              n_connect m' = n_connect m + j + 1 \<and> sent m' = sent m @ [frame c, frame c]
              \<and> (case send_result nw (Suc (n_send m)) of
                    Some e' \<Rightarrow> r = Inl e' \<and> n_recv m' = n_recv m
                  | None \<Rightarrow> r = recv_result nw (n_recv m) \<and> n_recv m' = Suc (n_recv m)))
       \<and> ((\<forall>i<3. \<exists>x. connect_result nw (n_connect m + i) = Some x \<and> caught_by_connect x) \<longrightarrow>
              n_connect m' = n_connect m + 3 \<and> sent m' = sent m @ [frame c]
              \<and> (\<exists>x. r = Inl x \<and> connect_result nw (n_connect m + 2) = Some x))"
  using run fail conn
  unfolding send_raw_command_def send_with_reconnect_def socket_send_def recv_def
    connect_unrolled max_connection_attempts_def all_less_3 all_less_2 all_less_1
  by (auto simp: Let_def split: option.splits if_splits)

theorem send_raw_command_reconnects_once_witness:
  "fst (send_raw_command net_resend_fails ''RS'' motor0) = Inl ConnectionResetError
   \<and> sent (snd (send_raw_command net_resend_fails ''RS'' motor0)) = [frame ''RS'', frame ''RS'']
   \<and> n_connect (snd (send_raw_command net_resend_fails ''RS'' motor0)) = 3
   \<and> n_recv (snd (send_raw_command net_resend_fails ''RS'' motor0)) = 0
   \<and> fst (send_raw_command net_unreachable ''RS'' motor0) = Inl ConnectionRefusedError
   \<and> sent (snd (send_raw_command net_unreachable ''RS'' motor0)) = [frame ''RS'']
   \<and> n_connect (snd (send_raw_command net_unreachable ''RS'' motor0)) = 3"
  using
    send_raw_command_reconnects_once [of net_resend_fails motor0 BrokenPipeError "''RS''"
      "fst (send_raw_command net_resend_fails ''RS'' motor0)"
      "snd (send_raw_command net_resend_fails ''RS'' motor0)"]
    send_raw_command_reconnects_once [of net_unreachable motor0 BrokenPipeError "''RS''"
      "fst (send_raw_command net_unreachable ''RS'' motor0)"
      "snd (send_raw_command net_unreachable ''RS'' motor0)"]
  by (simp add: all_less_3 all_less_2 all_less_1 net_resend_fails_def net_unreachable_def motor0_def)



text \<open>
  C5 as stated fails: a connection reset that is met while the reply is read is a
  \<^verbatim>\<open>ConnectionError\<close> of a foreground command, and it goes to the caller with no
  connection attempted and the command sent once.
\<close>

theorem send_raw_command_recv_failure_counterexample:
  "is_ConnectionError ConnectionResetError
   \<and> fst (send_raw_command net_reset_on_recv ''RS'' motor0) = Inl ConnectionResetError
   \<and> n_connect (snd (send_raw_command net_reset_on_recv ''RS'' motor0)) = 0
   \<and> sent (snd (send_raw_command net_reset_on_recv ''RS'' motor0)) = [frame ''RS'']"
  by (simp add: send_raw_command_def send_with_reconnect_def socket_send_def recv_def
        net_reset_on_recv_def motor0_def)

section \<open>Properties of the regular grid layers\<close>

text \<open>
  The dtype test of \<^verbatim>\<open>_validate_limits\<close> holds for every dtype, so the validation of
  limits raises on every argument, and with it every construction of a \<^verbatim>\<open>GridLayer\<close>.
\<close>

lemma validate_limits_raises: "isl (validate_limits n x)"
  by (cases x) (auto simp: validate_limits_def as_array_def issubdtype_floating_def
        issubdtype_integer_def split: dtype.splits)

lemma GridLayer_init_raises: "isl (GridLayer_init n lims np steps)"
proof -
  obtain e where "validate_limits n lims = Inl e"
    using validate_limits_raises [of n lims] by (cases "validate_limits n lims") auto
  then show ?thesis
    by (simp add: GridLayer_init_def BaseLayer_init_def GridLayer_validate_inputs_def
          split: option.splits)
qed

text \<open>
  Below the dtype test the limits \<^verbatim>\<open>[[0, 10], [0, 20]]\<close> pass, and the generator makes
  the four points of the claim from them, axis \<open>i\<close> along dimension \<open>i\<close> and the
  coordinates last.
\<close>

lemma check_limits_2x2:
  "check_limits 2 (Node [Node [Leaf 0, Leaf 10], Node [Leaf 0, Leaf 20]]) = Inr [(0, 10), (0, 20)]"
  by (simp add: check_limits_def rows_def sort_pair_def)

lemma generate_point_matrix_2x2:
  "generate_point_matrix [(0, 10), (0, 20)] [2, 2] =
     Inr (Node [Node [Node [Leaf 0, Leaf 0], Node [Leaf 0, Leaf 20]],
                Node [Node [Leaf 10, Leaf 0], Node [Leaf 10, Leaf 20]]])"
  by (simp add: generate_point_matrix_def linspace_def numeral_2_eq_2)

text \<open>
  C2 at its input: constructing \<^verbatim>\<open>GridLayer(ds, limits=[[0, 10], [0, 20]], npoints=[2, 2])\<close>
  in a two-dimensional motion space raises the \<^verbatim>\<open>ValueError\<close> of the dtype test; no
  point matrix is generated.
\<close>

theorem GridLayer_init_2x2_raises:
  "GridLayer_init 2 (PySeq (Node [Node [Leaf 0, Leaf 10], Node [Leaf 0, Leaf 20]]))
     (Some (PySeq (Node [Leaf 2, Leaf 2]))) None
   = Inl (Raised ValueError ''limits: expected an integer or float dtype'')"
  by (simp add: GridLayer_init_def BaseLayer_init_def GridLayer_validate_inputs_def
        validate_limits_def as_array_def issubdtype_floating_def issubdtype_integer_def)

lemma GridCNStepLayer_init_raises: "isl (GridCNStepLayer_init n center np step)"
proof -
  have never: "validate_limits n x \<noteq> Inr l" for x l
    using validate_limits_raises [of n x] by auto
  show ?thesis
    by (auto simp: GridCNStepLayer_init_def BaseLayer_init_def
          GridCNStepLayer_validate_inputs_def never split: sum.splits)
qed

text \<open>
  The limits derived for centre \<open>(0, 0)\<close>, three points and step 1 on each axis, and
  the points the generator makes from them.
\<close>

lemma derive_limits_3x3: "derive_limits [0, 0] [3, 3] [1, 1] = [(- 1, 1), (- 1, 1)]"
  by (simp add: derive_limits_def)

lemma generate_point_matrix_3x3:
  "generate_point_matrix [(- 1, 1), (- 1, 1)] [3, 3] =
     Inr (Node
       [Node [Node [Leaf (- 1), Leaf (- 1)], Node [Leaf (- 1), Leaf 0], Node [Leaf (- 1), Leaf 1]],
        Node [Node [Leaf 0, Leaf (- 1)], Node [Leaf 0, Leaf 0], Node [Leaf 0, Leaf 1]],
        Node [Node [Leaf 1, Leaf (- 1)], Node [Leaf 1, Leaf 0], Node [Leaf 1, Leaf 1]]])"
  by (simp add: generate_point_matrix_def linspace_def numeral_3_eq_3)

text \<open>
  C6 at its input: constructing
  \<^verbatim>\<open>GridCNStepLayer(ds, center=[0, 0], npoints=[3, 3], step_size=[1, 1])\<close> validates centre,
  numbers of points and step sizes, derives the limits and hands them to
  \<^verbatim>\<open>_validate_limits\<close>, which raises the \<^verbatim>\<open>ValueError\<close> of the dtype test; no point
  matrix is generated.
\<close>

theorem GridCNStepLayer_init_3x3_raises:
  "GridCNStepLayer_init 2 (PySeq (Node [Leaf 0, Leaf 0])) (PySeq (Node [Leaf 3, Leaf 3]))
     (PySeq (Node [Leaf 1, Leaf 1]))
   = Inl (Raised ValueError ''limits: expected an integer or float dtype'')"
  by (simp add: GridCNStepLayer_init_def BaseLayer_init_def GridCNStepLayer_validate_inputs_def
        validate_center_def validate_step_size_def validate_npoints_def as_squeezed_array_def
        validate_limits_def as_array_def issubdtype_floating_def issubdtype_integer_def)

text \<open>
  C7, as the code has it.  The checks of \<^verbatim>\<open>_validate_limits\<close> refuse the limits
  \<^verbatim>\<open>[[5, 5], [0, 10]]\<close> because a (min, max) pair is equal, and constructing a
  \<^verbatim>\<open>GridLayer\<close> with them raises, whatever the numbers of points.  The generator
  itself, handed limits whose first pair is \<open>(5, 5)\<close>, ignores the number of points asked
  for on that axis and makes exactly one point there, at value 5.
\<close>

theorem GridLayer_degenerate_axis:
  "check_limits 2 (Node [Node [Leaf 5, Leaf 5], Node [Leaf 0, Leaf 10]])
     = Inl (Raised ValueError ''limits: some pairs are equal'')
   \<and> isl (GridLayer_init 2 (PySeq (Node [Node [Leaf 5, Leaf 5], Node [Leaf 0, Leaf 10]])) np steps)
   \<and> generate_point_matrix [(5, 5), (0, 10)] [n0, n1] =
       (case linspace 0 10 n1 of
          Inl e \<Rightarrow> Inl e
        | Inr ys \<Rightarrow> Inr (Node [Node (map (\<lambda>y. Node [Leaf 5, Leaf y]) ys)]))"
  by (simp add: check_limits_def rows_def GridLayer_init_raises generate_point_matrix_def
        linspace_def split: sum.splits)

theorem GridLayer_degenerate_axis_witness:
  "generate_point_matrix [(5, 5), (0, 10)] [4, 3] =
     Inr (Node [Node [Node [Leaf 5, Leaf 0], Node [Leaf 5, Leaf 5], Node [Leaf 5, Leaf 10]]])"
  using GridLayer_degenerate_axis [of None None 4 3]
  by (simp add: linspace_def numeral_3_eq_3)

text \<open>
  C7 as stated fails: constructing
  \<^verbatim>\<open>GridLayer(ds, limits=[[5, 5], [0, 10]], npoints=[3, 3])\<close> does not succeed.
\<close>

theorem GridLayer_degenerate_axis_counterexample:
  "isl (GridLayer_init 2 (PySeq (Node [Node [Leaf 5, Leaf 5], Node [Leaf 0, Leaf 10]]))
          (Some (PySeq (Node [Leaf 3, Leaf 3]))) None)"
  by (simp add: GridLayer_init_def BaseLayer_init_def GridLayer_validate_inputs_def
        validate_limits_def as_array_def issubdtype_floating_def issubdtype_integer_def)

section \<open>Properties of the LaPD XY exclusion\<close>

text \<open>
  With numeric cone angle and port location, the validation raises exactly when the cone
  angle is at least 180 or the port location lies outside \<open>(-180, 360)\<close>.
\<close>

lemma LaPDXYExclusion_raises_iff:
  "isl (LaPDXYExclusion_validate_inputs diam pivot (Num a) (Num c) True)
     \<longleftrightarrow> 180 \<le> c \<or> \<not> (- 180 < a \<and> a < 360)"
  by (auto simp: LaPDXYExclusion_validate_inputs_def)

text \<open>
  C9 at a negative cone angle: the validation of
  \<^verbatim>\<open>LaPDXYExclusion(ds, port_location="E", cone_full_angle=-10)\<close> (the other arguments
  at their defaults) raises nothing and stores the angle \<open>-10\<close>.
\<close>

theorem LaPDXYExclusion_accepts_negative_cone:
  "LaPDXYExclusion_validate_inputs 100 (- 58.771) (Str ''E'') (Num (- 10)) True =
     Inr \<lparr>diameter = 100, pivot_radius = Some 58.771, port_location = Some 0,
          cone_full_angle = Some (- 10), include_cone = True\<rparr>"
  by (simp add: LaPDXYExclusion_validate_inputs_def port_location_to_angle_def lower_def
        lower_char_def)

section \<open>Properties of the LaPD XY transform\<close>

subsection \<open>Validation of the distances\<close>









subsection \<open>The round trip\<close>

lemma cos_nonpos_upper:
  fixes x :: real
  assumes "pi / 2 \<le> x" and "x < pi"
  shows "cos x \<le> 0"
proof -
  have "0 \<le> sin (x - pi / 2)"
    using assms by (intro sin_ge_zero) (auto simp: field_simps)
  moreover have "sin (x - pi / 2) = - cos x"
    by (simp add: sin_diff)
  ultimately show ?thesis by simp
qed

text \<open>
  The angle computed on the way back is the angle of the way out: with
  \<open>b\<close> the cross-axis drive coordinate made from the angle \<open>- arctan t\<close>, the
  arcsine is defined and \<open>arctan tan_beta - arcsin sine_alpha\<close> is \<open>arctan t\<close>
  again, as long as \<open>pivot_to_drive + probe_axis_offset * sin (arctan t)\<close> is not negative.
\<close>

lemma angle_recovered:
  fixes t ptd pao :: real
  assumes ptd: "0 < ptd" and pao: "0 \<le> pao"
    and cond: "0 \<le> ptd + pao * sin (arctan t)"
  defines "b \<equiv> ptd * tan (- arctan t) + pao * (1 - 1 / cos (- arctan t))"
  shows "\<bar>pao / sqrt (ptd\<^sup>2 + (- pao + b)\<^sup>2)\<bar> \<le> 1
       \<and> arctan ((- pao + b) / - ptd) - arcsin (pao / sqrt (ptd\<^sup>2 + (- pao + b)\<^sup>2)) = arctan t"
proof -
  define phi where "phi = arctan t"
  define c where "c = cos phi"
  define s where "s = sin phi"
  define u where "u = ptd * t + pao / c"
  define R where "R = sqrt (ptd\<^sup>2 + u\<^sup>2)"
  have cpos: "0 < c"
    unfolding c_def phi_def by (rule cos_gt_zero_pi [OF arctan_lbound arctan_ubound])
  have cs: "c\<^sup>2 + s\<^sup>2 = 1" by (simp add: c_def s_def)
  have t_eq: "t = s / c"
    using tan_arctan [of t] by (simp add: tan_def c_def s_def phi_def)
  have b_eq: "- pao + b = - u"
    by (simp add: b_def u_def c_def phi_def tan_arctan algebra_simps)
  have uc: "u * c = ptd * s + pao"
    using cpos by (simp add: u_def t_eq field_simps)
  have Rpos: "0 < R"
  proof -
    have "0 < ptd\<^sup>2 + u\<^sup>2" using ptd by (simp add: add_pos_nonneg)
    then show ?thesis by (simp add: R_def)
  qed
  have R2: "R\<^sup>2 = ptd\<^sup>2 + u\<^sup>2" by (simp add: R_def)
  have cR2: "(c * R)\<^sup>2 = (ptd + pao * s)\<^sup>2 + (pao * c)\<^sup>2"
  proof -
    have "(c * R)\<^sup>2 = (ptd * c)\<^sup>2 + (u * c)\<^sup>2"
      by (simp add: power_mult_distrib R2 algebra_simps)
    also have "\<dots> = ptd\<^sup>2 * c\<^sup>2 + (ptd * s + pao)\<^sup>2"
      by (simp add: uc power_mult_distrib)
    also have "\<dots> = ptd\<^sup>2 * (c\<^sup>2 + s\<^sup>2) + 2 * ptd * pao * s + pao\<^sup>2"
      by (simp add: power2_eq_square algebra_simps)
    also have "\<dots> = ptd\<^sup>2 + 2 * ptd * pao * s + pao\<^sup>2 * (c\<^sup>2 + s\<^sup>2)"
      by (simp add: cs)
    also have "\<dots> = (ptd + pao * s)\<^sup>2 + (pao * c)\<^sup>2"
      by (simp add: power2_eq_square algebra_simps)
    finally show ?thesis .
  qed
  have cRpos: "0 < c * R" using cpos Rpos by simp
  have le: "pao * c \<le> c * R"
  proof -
    have "(pao * c)\<^sup>2 \<le> (c * R)\<^sup>2" by (simp add: cR2)
    moreover have "0 \<le> c * R" using cRpos by simp
    ultimately show ?thesis by (rule power2_le_imp_le)
  qed
  then have paoR: "pao \<le> R" using cpos by (simp add: mult.commute)
  define z where "z = pao / R"
  have z0: "0 \<le> z" and z1: "z \<le> 1"
    using pao Rpos paoR by (simp_all add: z_def)
  define al where "al = arcsin z"
  have sin_al: "sin al = z" using z0 z1 by (simp add: al_def)
  have al0: "0 \<le> al" using z0 z1 by (simp add: al_def arcsin_nonneg)
  have al1: "al \<le> pi / 2"
    unfolding al_def using z0 z1 by (intro arcsin_ubound) simp_all
  have cos_al: "cos al = (ptd + pao * s) / (c * R)"
  proof -
    have "cos al = sqrt (1 - z\<^sup>2)"
      using z0 z1 by (simp add: al_def cos_arcsin)
    also have "1 - z\<^sup>2 = ((ptd + pao * s) / (c * R))\<^sup>2"
    proof -
      have "((ptd + pao * s) / (c * R))\<^sup>2 = ((c * R)\<^sup>2 - (pao * c)\<^sup>2) / (c * R)\<^sup>2"
        by (simp add: cR2 power_divide)
      also have "\<dots> = 1 - (pao * c)\<^sup>2 / (c * R)\<^sup>2"
        using cpos Rpos by (simp add: diff_divide_distrib)
      also have "(pao * c)\<^sup>2 / (c * R)\<^sup>2 = z\<^sup>2"
        using cpos by (simp add: z_def power_mult_distrib power_divide)
      finally show ?thesis by simp
    qed
    also have "sqrt (((ptd + pao * s) / (c * R))\<^sup>2) = (ptd + pao * s) / (c * R)"
      using cond cRpos by (simp add: s_def phi_def)
    finally show ?thesis .
  qed
  define psi where "psi = phi + al"
  have cos_psi: "cos psi = ptd / R"
  proof -
    have "cos psi = c * ((ptd + pao * s) / (c * R)) - s * (pao / R)"
      by (simp add: psi_def cos_add c_def s_def cos_al sin_al z_def)
    also have "\<dots> = ptd / R"
      using cpos Rpos by (simp add: field_simps)
    finally show ?thesis .
  qed
  have sin_psi: "sin psi = u / R"
  proof -
    have "sin psi = s * ((ptd + pao * s) / (c * R)) + c * (pao / R)"
      by (simp add: psi_def sin_add c_def s_def cos_al sin_al z_def)
    also have "\<dots> = (ptd * s + pao * (s\<^sup>2 + c\<^sup>2)) / (c * R)"
      using cpos Rpos by (simp add: field_simps power2_eq_square)
    also have "\<dots> = (u * c) / (c * R)"
      using cs by (simp add: uc add.commute)
    also have "\<dots> = u / R"
      using cpos by simp
    finally show ?thesis .
  qed
  have cos_psi_pos: "0 < cos psi" using ptd Rpos by (simp add: cos_psi)
  have psi_lb: "- (pi / 2) < psi"
    using arctan_lbound [of t] al0 by (simp add: psi_def phi_def)
  have psi_ub: "psi < pi / 2"
  proof (rule ccontr)
    assume "\<not> psi < pi / 2"
    then have "pi / 2 \<le> psi" by simp
    moreover have "psi < pi"
      using arctan_ubound [of t] al1 by (simp add: psi_def phi_def)
    ultimately have "cos psi \<le> 0" by (rule cos_nonpos_upper)
    with cos_psi_pos show False by simp
  qed
  have tan_psi: "tan psi = u / ptd"
    using Rpos ptd by (simp add: tan_def sin_psi cos_psi)
  have "arctan (u / ptd) = psi"
    by (rule arctan_unique [OF psi_lb psi_ub tan_psi])
  then have main: "arctan (u / ptd) - al = phi" by (simp add: psi_def)
  have root: "sqrt (ptd\<^sup>2 + (- pao + b)\<^sup>2) = R"
    unfolding b_eq R_def by simp
  have quot: "(- pao + b) / - ptd = u / ptd"
    unfolding b_eq by simp
  show ?thesis
    unfolding root quot
    using main z0 z1 by (simp add: al_def z_def phi_def)
qed



lemma sqrt_quotient:
  fixes y d :: real
  assumes "0 < d"
  shows "sqrt (1 + (y / d)\<^sup>2) = sqrt (y\<^sup>2 + d\<^sup>2) / d"
proof -
  have "1 + (y / d)\<^sup>2 = (y\<^sup>2 + d\<^sup>2) / d\<^sup>2"
    using assms by (simp add: power_divide field_simps)
  then have "sqrt (1 + (y / d)\<^sup>2) = sqrt (y\<^sup>2 + d\<^sup>2) / sqrt (d\<^sup>2)"
    by (simp add: real_sqrt_divide)
  with assms show ?thesis by simp
qed

lemma polar_arctan:
  fixes y d :: real
  assumes "0 < d"
  shows "sqrt (y\<^sup>2 + d\<^sup>2) * cos (arctan (y / d)) = d"
    and "sqrt (y\<^sup>2 + d\<^sup>2) * sin (arctan (y / d)) = y"
proof -
  have r: "0 < sqrt (y\<^sup>2 + d\<^sup>2)"
    using assms by (simp add: add_nonneg_pos)
  show "sqrt (y\<^sup>2 + d\<^sup>2) * cos (arctan (y / d)) = d"
    using r assms by (simp add: cos_arctan sqrt_quotient)
  show "sqrt (y\<^sup>2 + d\<^sup>2) * sin (arctan (y / d)) = y"
    using r assms by (simp add: sin_arctan sqrt_quotient)
qed

lemma apply_homogeneous_eq:
  "apply_homogeneous [[a, b, c], [d, e, f], [g, h, i]] (x, y) = (a * x + b * y + c, d * x + e * y + f)"
  by (simp add: apply_homogeneous_def matmul_def Let_def numeral_3_eq_3)

lemma matmul_3x3:
  "matmul [[a1, a2, a3], [b1, b2, b3], [c1, c2, c3]] [[x1, x2, x3], [y1, y2, y3], [z1, z2, z3]] =
     [[a1 * x1 + a2 * y1 + a3 * z1, a1 * x2 + a2 * y2 + a3 * z2, a1 * x3 + a2 * y3 + a3 * z3],
      [b1 * x1 + b2 * y1 + b3 * z1, b1 * x2 + b2 * y2 + b3 * z2, b1 * x3 + b2 * y3 + b3 * z3],
      [c1 * x1 + c2 * y1 + c3 * z1, c1 * x2 + c2 * y2 + c3 * z2, c1 * x3 + c2 * y3 + c3 * z3]]"
  by (simp add: matmul_def numeral_3_eq_3)

lemma to_drive_eq:
  assumes "fst (mspace_polarity tr) * fst p + pivot_to_center tr \<noteq> 0"
  shows "to_drive tr p =
     Some (fst (drive_polarity tr) *
             (sqrt ((snd (mspace_polarity tr) * snd p)\<^sup>2
                    + (pivot_to_center tr + fst (mspace_polarity tr) * fst p)\<^sup>2)
              - pivot_to_center tr),
           snd (drive_polarity tr) *
             (pivot_to_drive tr
                * tan (- arctan (snd (mspace_polarity tr) * snd p
                                 / (fst (mspace_polarity tr) * fst p + pivot_to_center tr)))
              + probe_axis_offset tr
                * (1 - 1 / cos (- arctan (snd (mspace_polarity tr) * snd p
                                 / (fst (mspace_polarity tr) * fst p + pivot_to_center tr))))))"
  using assms
  by (cases p)
     (simp add: to_drive_def matrix_to_drive_def theta_to_drive_def polarised_def Let_def
        diag_polarity_def matmul_3x3 apply_homogeneous_eq)

lemma to_motion_space_eq:
  assumes "theta_to_motion_space tr e = Some theta"
  shows "to_motion_space tr e =
     Some (fst (mspace_polarity tr) *
             ((fst (drive_polarity tr) * fst e + pivot_to_center tr) * cos theta
              - pivot_to_center tr),
           snd (mspace_polarity tr) *
             ((fst (drive_polarity tr) * fst e + pivot_to_center tr) * sin theta))"
  using assms
  by (cases e)
     (simp add: to_motion_space_def matrix_to_motion_space_def Let_def
        diag_polarity_def matmul_3x3 apply_homogeneous_eq algebra_simps)


lemma polarity_square:
  fixes x :: real
  assumes "\<bar>x\<bar> = 1"
  shows "x * x = 1"
proof -
  from assms have "x = 1 \<or> x = - 1" by auto
  then show ?thesis by auto
qed

text \<open>
  C1, as the code has it, over the reals.  Let the pivot-to-drive distance be positive,
  the probe-axis offset non-negative and the four polarity entries \<open>1\<close> or \<open>-1\<close>.  For
  every point \<open>p\<close> that lies on the chamber side of the pivot (after the motion-space
  polarity, \<open>x + pivot_to_center > 0\<close>) and satisfies
  \<open>pivot_to_drive * sqrt (y\<^sup>2 + (x + pivot_to_center)\<^sup>2) + probe_axis_offset * y \<ge> 0\<close>
  (true whenever the offset is at most the pivot-to-drive distance, lemma
  \<open>small_offset_reaches\<close>), mapping \<open>p\<close> to drive space and the result back to motion
  space returns \<open>p\<close>.
\<close>

theorem round_trip:
  assumes ptd: "0 < pivot_to_drive tr" and pao: "0 \<le> probe_axis_offset tr"
    and dpol: "\<bar>fst (drive_polarity tr)\<bar> = 1" "\<bar>snd (drive_polarity tr)\<bar> = 1"
    and mpol: "\<bar>fst (mspace_polarity tr)\<bar> = 1" "\<bar>snd (mspace_polarity tr)\<bar> = 1"
    and front: "0 < fst (mspace_polarity tr) * fst p + pivot_to_center tr"
    and reach: "0 \<le> pivot_to_drive tr
                    * sqrt ((snd (mspace_polarity tr) * snd p)\<^sup>2
                            + (fst (mspace_polarity tr) * fst p + pivot_to_center tr)\<^sup>2)
                  + probe_axis_offset tr * (snd (mspace_polarity tr) * snd p)"
  shows "\<exists>e. to_drive tr p = Some e \<and> to_motion_space tr e = Some p"
proof -
  define X where "X = fst (mspace_polarity tr) * fst p"
  define Y where "Y = snd (mspace_polarity tr) * snd p"
  define D where "D = X + pivot_to_center tr"
  define r where "r = sqrt (Y\<^sup>2 + D\<^sup>2)"
  define t where "t = Y / D"
  define b where "b = pivot_to_drive tr * tan (- arctan t)
                      + probe_axis_offset tr * (1 - 1 / cos (- arctan t))"
  define e where "e = (fst (drive_polarity tr) * (r - pivot_to_center tr), snd (drive_polarity tr) * b)"
  have Dpos: "0 < D" using front by (simp add: D_def X_def)
  have rpos: "0 < r" using Dpos by (simp add: r_def add_nonneg_pos)
  have rcos: "r * cos (arctan t) = D" and rsin: "r * sin (arctan t) = Y"
    unfolding r_def t_def by (rule polar_arctan [OF Dpos])+
  have drive: "to_drive tr p = Some e"
  proof -
    have "fst (mspace_polarity tr) * fst p + pivot_to_center tr \<noteq> 0"
      using front by simp
    then show ?thesis
      by (simp add: to_drive_eq e_def b_def t_def r_def D_def X_def Y_def add.commute)
  qed
  have pe: "polarised (drive_polarity tr) e = (r - pivot_to_center tr, b)"
    using polarity_square [OF dpol(1)] polarity_square [OF dpol(2)]
    by (simp add: polarised_def e_def mult.assoc [symmetric])
  have cond: "0 \<le> pivot_to_drive tr + probe_axis_offset tr * sin (arctan t)"
  proof -
    have "0 \<le> pivot_to_drive tr * r + probe_axis_offset tr * Y"
      using reach by (simp add: r_def D_def X_def Y_def)
    also have "\<dots> = r * (pivot_to_drive tr + probe_axis_offset tr * sin (arctan t))"
      by (simp add: rsin [symmetric] algebra_simps)
    finally show ?thesis
      using rpos by (simp add: zero_le_mult_iff)
  qed
  note recovered = angle_recovered [OF ptd pao cond, folded b_def]
  have root_pos: "0 < sqrt ((pivot_to_drive tr)\<^sup>2 + (- probe_axis_offset tr + b)\<^sup>2)"
  proof -
    have "0 < (pivot_to_drive tr)\<^sup>2 + (- probe_axis_offset tr + b)\<^sup>2"
      using ptd by (simp add: add_pos_nonneg)
    then show ?thesis by simp
  qed
  have theta: "theta_to_motion_space tr e = Some (arctan t)"
    using recovered root_pos ptd
    by (simp add: theta_to_motion_space_def pe Let_def)
  have returns: "to_motion_space tr e = Some p"
  proof -
    have fe: "fst (drive_polarity tr) * fst e + pivot_to_center tr = r"
      using polarity_square [OF dpol(1)]
      by (simp add: e_def mult.assoc [symmetric])
    have x: "fst (mspace_polarity tr) * (r * cos (arctan t) - pivot_to_center tr) = fst p"
      using polarity_square [OF mpol(1)]
      by (simp add: rcos D_def X_def mult.assoc [symmetric])
    have y: "snd (mspace_polarity tr) * (r * sin (arctan t)) = snd p"
      using polarity_square [OF mpol(2)]
      by (simp add: rsin Y_def mult.assoc [symmetric])
    show ?thesis
      by (simp add: to_motion_space_eq [OF theta] fe x y)
  qed
  from drive returns show ?thesis by blast
qed



lemma abs_le_sqrt_sum:
  fixes y d :: real
  shows "\<bar>y\<bar> \<le> sqrt (y\<^sup>2 + d\<^sup>2)"
proof -
  have "sqrt (y\<^sup>2) \<le> sqrt (y\<^sup>2 + d\<^sup>2)"
    by (rule real_sqrt_le_mono) simp
  then show ?thesis by simp
qed

lemma small_offset_reaches:
  fixes ptd pao y d :: real
  assumes "0 \<le> pao" and "pao \<le> ptd"
  shows "0 \<le> ptd * sqrt (y\<^sup>2 + d\<^sup>2) + pao * y"
proof -
  have "- (pao * y) \<le> pao * \<bar>y\<bar>"
    using assms(1) by (metis abs_ge_minus_self mult_left_mono mult_minus_right)
  also have "\<dots> \<le> pao * sqrt (y\<^sup>2 + d\<^sup>2)"
    using assms(1) abs_le_sqrt_sum by (rule_tac mult_left_mono) auto
  also have "\<dots> \<le> ptd * sqrt (y\<^sup>2 + d\<^sup>2)"
    using assms(2) by (rule_tac mult_right_mono) auto
  finally show ?thesis by simp
qed

theorem round_trip_witness:
  "\<exists>e. to_drive lapd_east (10, - 5) = Some e \<and> to_motion_space lapd_east e = Some (10, - 5)"
proof -
  have reach: "0 \<le> (133.51 :: real) * sqrt ((1 * - 5)\<^sup>2 + (- 1 * 10 + 62.94)\<^sup>2) + 20.16 * (1 * - 5)"
    by (rule small_offset_reaches) simp_all
  show ?thesis
    using round_trip [of lapd_east "(10, - 5)"] reach
    by (simp add: lapd_east_def)
qed

text \<open>
  C1 as stated fails: for a valid transform and the point \<open>(2, 0)\<close>, which lies beyond
  the pivot \<open>(1, 0)\<close>, the round trip returns \<open>(0, 0)\<close>.
\<close>

theorem round_trip_counterexample:
  "LaPDXYTransform_validate_inputs (Number (PInt 1)) (Number (PInt 1)) (Number (PInt 0))
       (Node [Leaf 1, Leaf 1]) (Node [Leaf (- 1), Leaf 1]) = Inr (lapd0_inputs, {})
   \<and> parameters lapd0_inputs = Some lapd0
   \<and> to_drive lapd0 (2, 0) = Some (0, 0)
   \<and> to_motion_space lapd0 (0, 0) = Some (0, 0)
   \<and> \<not> (\<exists>e. to_drive lapd0 (2, 0) = Some e \<and> to_motion_space lapd0 e = Some (2, 0))"
proof -
  have v: "LaPDXYTransform_validate_inputs (Number (PInt 1)) (Number (PInt 1)) (Number (PInt 0))
       (Node [Leaf 1, Leaf 1]) (Node [Leaf (- 1), Leaf 1]) = Inr (lapd0_inputs, {})"
    by (simp add: LaPDXYTransform_validate_inputs_def validate_distance_def
          validate_polarity_def lapd0_inputs_def)
  have q: "parameters lapd0_inputs = Some lapd0"
    by (simp add: parameters_def lapd0_inputs_def lapd0_def)
  have d: "to_drive lapd0 (2, 0) = Some (0, 0)"
    by (simp add: to_drive_eq lapd0_def)
  have th: "theta_to_motion_space lapd0 (0, 0) = Some 0"
    by (simp add: theta_to_motion_space_def polarised_def lapd0_def)
  have m: "to_motion_space lapd0 (0, 0) = Some (0, 0)"
    using to_motion_space_eq [OF th] by (simp add: lapd0_def)
  from v q d m show ?thesis by simp
qed

subsection \<open>The angle of the probe shaft\<close>

text \<open>
  \<open>spec_atan2\<close> is the two-argument arctangent: its value is the angle in
  \<open>(-pi, pi]\<close> under which the point \<open>(x, y)\<close> is seen from the origin.
\<close>

lemma spec_atan2_polar:
  fixes x y :: real
  assumes "x \<noteq> 0 \<or> y \<noteq> 0"
  shows "- pi < spec_atan2 y x \<and> spec_atan2 y x \<le> pi
       \<and> sqrt (y\<^sup>2 + x\<^sup>2) * cos (spec_atan2 y x) = x
       \<and> sqrt (y\<^sup>2 + x\<^sup>2) * sin (spec_atan2 y x) = y"
proof -
  consider "0 < x" | "x < 0" "0 \<le> y" | "x < 0" "y < 0" | "x = 0" "0 < y" | "x = 0" "y < 0"
    using assms by linarith
  then show ?thesis
  proof cases
    case 1
    have "- pi < arctan (y / x)" using arctan_lbound [of "y / x"] pi_gt_zero by linarith
    moreover have "arctan (y / x) \<le> pi" using arctan_ubound [of "y / x"] pi_gt_zero by linarith
    ultimately show ?thesis
      using 1 polar_arctan [OF 1, of y] by (simp add: spec_atan2_def)
  next
    case 2
    have pos: "0 < - x" using 2 by simp
    have q: "y / x = - (y / - x)" by simp
    have "y / x \<le> 0" using 2 by (simp add: divide_nonneg_neg)
    then have "arctan (y / x) \<le> 0" by (simp add: arctan_le_zero_iff)
    moreover have "- (pi / 2) < arctan (y / x)" by (rule arctan_lbound)
    ultimately have rng: "- pi < arctan (y / x) + pi \<and> arctan (y / x) + pi \<le> pi"
      using pi_gt_zero by linarith
    have c: "sqrt (y\<^sup>2 + x\<^sup>2) * cos (arctan (y / x) + pi) = x"
      using polar_arctan(1) [OF pos, of y] unfolding q arctan_minus by simp
    have s: "sqrt (y\<^sup>2 + x\<^sup>2) * sin (arctan (y / x) + pi) = y"
      using polar_arctan(2) [OF pos, of y] unfolding q arctan_minus by simp
    show ?thesis
      using 2 rng c s by (simp add: spec_atan2_def)
  next
    case 3
    have pos: "0 < - x" using 3 by simp
    have q: "y / x = - (y / - x)" by simp
    have "0 < y / x" using 3 by (simp add: divide_neg_neg)
    then have "0 < arctan (y / x)" by (simp add: zero_less_arctan_iff)
    moreover have "arctan (y / x) < pi / 2" by (rule arctan_ubound)
    ultimately have rng: "- pi < arctan (y / x) - pi \<and> arctan (y / x) - pi \<le> pi"
      using pi_gt_zero by linarith
    have c: "sqrt (y\<^sup>2 + x\<^sup>2) * cos (arctan (y / x) - pi) = x"
      using polar_arctan(1) [OF pos, of y] unfolding q arctan_minus by (simp add: cos_diff)
    have s: "sqrt (y\<^sup>2 + x\<^sup>2) * sin (arctan (y / x) - pi) = y"
      using polar_arctan(2) [OF pos, of y] unfolding q arctan_minus by (simp add: sin_diff)
    show ?thesis
      using 3 rng c s by (simp add: spec_atan2_def)
  next
    case 4
    then show ?thesis using pi_gt_zero by (simp add: spec_atan2_def)
  next
    case 5
    have e: "spec_atan2 y x = - (pi / 2)" using 5 by (simp add: spec_atan2_def)
    have lo: "- pi < spec_atan2 y x" unfolding e using pi_gt_zero by linarith
    have hi: "spec_atan2 y x \<le> pi" unfolding e using pi_gt_zero by linarith
    have c: "sqrt (y\<^sup>2 + x\<^sup>2) * cos (spec_atan2 y x) = x" unfolding e using 5 by simp
    have s: "sqrt (y\<^sup>2 + x\<^sup>2) * sin (spec_atan2 y x) = y" unfolding e using 5 by simp
    from lo hi c s show ?thesis by blast
  qed
qed

text \<open>
  On the line through the pivot where the divisor is zero, off the pivot itself, the
  infinite quotient gives the angle that the two-argument arctangent gives.
\<close>

lemma theta_to_drive_zero_divisor:
  assumes "fst (mspace_polarity tr) * fst p + pivot_to_center tr = 0"
    and "snd (mspace_polarity tr) * snd p \<noteq> 0"
  shows "theta_to_drive tr p = Some (- spec_atan2 (snd (mspace_polarity tr) * snd p) 0)"
  using assms by (auto simp: theta_to_drive_def polarised_def Let_def spec_atan2_def)

text \<open>
  C3, as the code has it.  After the motion-space polarity has been applied, the angle is
  \<open>theta = - arctan (y / (x + pivot_to_center))\<close>, the one-argument arctangent of the
  quotient (the divisor not being zero).  It is \<open>- atan2 y (x + pivot_to_center)\<close> for
  every point with \<open>x + pivot_to_center\<close> positive, and it is not for any point with
  \<open>x + pivot_to_center\<close> negative.
\<close>

theorem theta_to_drive_arctan:
  "(fst (mspace_polarity tr) * fst p + pivot_to_center tr \<noteq> 0 \<longrightarrow>
      theta_to_drive tr p =
        Some (- arctan (snd (mspace_polarity tr) * snd p
                        / (fst (mspace_polarity tr) * fst p + pivot_to_center tr))))
   \<and> (0 < fst (mspace_polarity tr) * fst p + pivot_to_center tr \<longrightarrow>
      theta_to_drive tr p =
        Some (- spec_atan2 (snd (mspace_polarity tr) * snd p)
                           (fst (mspace_polarity tr) * fst p + pivot_to_center tr)))
   \<and> (fst (mspace_polarity tr) * fst p + pivot_to_center tr < 0 \<longrightarrow>
      theta_to_drive tr p \<noteq>
        Some (- spec_atan2 (snd (mspace_polarity tr) * snd p)
                           (fst (mspace_polarity tr) * fst p + pivot_to_center tr)))"
proof -
  define x where "x = fst (mspace_polarity tr) * fst p + pivot_to_center tr"
  define y where "y = snd (mspace_polarity tr) * snd p"
  have th: "x \<noteq> 0 \<Longrightarrow> theta_to_drive tr p = Some (- arctan (y / x))"
    by (simp add: theta_to_drive_def polarised_def Let_def x_def y_def)
  have neg: "x < 0 \<Longrightarrow> arctan (y / x) \<noteq> spec_atan2 y x"
    using pi_gt_zero by (simp add: spec_atan2_def)
  have pos: "0 < x \<Longrightarrow> arctan (y / x) = spec_atan2 y x"
    by (simp add: spec_atan2_def)
  have "(x \<noteq> 0 \<longrightarrow> theta_to_drive tr p = Some (- arctan (y / x)))
      \<and> (0 < x \<longrightarrow> theta_to_drive tr p = Some (- spec_atan2 y x))
      \<and> (x < 0 \<longrightarrow> theta_to_drive tr p \<noteq> Some (- spec_atan2 y x))"
    using th neg pos by auto
  then show ?thesis
    unfolding x_def y_def .
qed

theorem theta_to_drive_arctan_witness:
  "theta_to_drive lapd_east (10, - 5) = Some (- arctan (- 5 / 52.94))
   \<and> theta_to_drive lapd_east (10, - 5) = Some (- spec_atan2 (- 5) 52.94)
   \<and> theta_to_drive lapd0 (2, 0) = Some (- arctan (0 / - 1))
   \<and> theta_to_drive lapd0 (2, 0) \<noteq> Some (- spec_atan2 0 (- 1))"
  using theta_to_drive_arctan [of lapd_east "(10, - 5)"] theta_to_drive_arctan [of lapd0 "(2, 0)"]
  by (auto simp: lapd_east_def lapd0_def)

text \<open>
  C3 as stated fails where \<open>x + pivot_to_center\<close> is negative: at the point
  \<open>(2, 0)\<close> the computed angle is 0, and \<open>- atan2\<close> is \<open>- pi\<close>.
\<close>

theorem theta_to_drive_atan2_counterexample:
  "theta_to_drive lapd0 (2, 0) = Some 0
   \<and> - spec_atan2 (1 * 0) (- 1 * 2 + 1) = - pi
   \<and> theta_to_drive lapd0 (2, 0) \<noteq> Some (- spec_atan2 (1 * 0) (- 1 * 2 + 1))"
  using pi_gt_zero
  by (simp add: theta_to_drive_def polarised_def lapd0_def spec_atan2_def)


end
